theory Spec2Isabelle
  imports Complex_Main "HOL-Library.Char_ord" "HOL-Library.List_Lexorder" "HOL-Library.Option_ord"
begin

section \<open>SQL values and operators\<close>

text \<open>
  The program is \<^verbatim>\<open>build_final_tables.py\<close>: a sequence of SQL scripts run against a
  SQLite database. A column value is \<open>NULL\<close> or a value, so a column is an \<open>option\<close>.
  Numbers are exact (\<open>real\<close>): every division of the scripts is forced to be a real
  division by a factor \<open>1.0\<close>, so the integer/real distinction of SQLite does not change a
  result; rounding and overflow of the 64-bit representations are not part of this model.
  A condition is three-valued (\<open>bool option\<close>); \<open>WHEN\<close>, \<open>ON\<close> and \<open>WHERE\<close> accept a row
  only when the condition is true.
\<close>

type_synonym num = "real option"

fun sql_add :: "num \<Rightarrow> num \<Rightarrow> num" where
  "sql_add (Some x) (Some y) = Some (x + y)"
| "sql_add _ _ = None"

fun sql_sub :: "num \<Rightarrow> num \<Rightarrow> num" where
  "sql_sub (Some x) (Some y) = Some (x - y)"
| "sql_sub _ _ = None"

fun sql_mul :: "num \<Rightarrow> num \<Rightarrow> num" where
  "sql_mul (Some x) (Some y) = Some (x * y)"
| "sql_mul _ _ = None"

text \<open>SQLite's division yields \<open>NULL\<close> when the divisor is zero.\<close>

fun sql_div :: "num \<Rightarrow> num \<Rightarrow> num" where
  "sql_div (Some x) (Some y) = (if y = 0 then None else Some (x / y))"
| "sql_div _ _ = None"

fun sql_gt :: "num \<Rightarrow> num \<Rightarrow> bool option" where
  "sql_gt (Some x) (Some y) = Some (y < x)"
| "sql_gt _ _ = None"

fun sql_lt :: "num \<Rightarrow> num \<Rightarrow> bool option" where
  "sql_lt (Some x) (Some y) = Some (x < y)"
| "sql_lt _ _ = None"

fun sql_le :: "num \<Rightarrow> num \<Rightarrow> bool option" where
  "sql_le (Some x) (Some y) = Some (x \<le> y)"
| "sql_le _ _ = None"

fun sql_eq :: "'a option \<Rightarrow> 'a option \<Rightarrow> bool option" where
  "sql_eq (Some x) (Some y) = Some (x = y)"
| "sql_eq _ _ = None"

fun sql_and :: "bool option \<Rightarrow> bool option \<Rightarrow> bool option" where
  "sql_and (Some False) _ = Some False"
| "sql_and _ (Some False) = Some False"
| "sql_and (Some True) (Some True) = Some True"
| "sql_and _ _ = None"

definition is_true :: "bool option \<Rightarrow> bool" where
  "is_true c = (c = Some True)"

fun coalesce :: "'a option \<Rightarrow> 'a \<Rightarrow> 'a option" where
  "coalesce (Some x) d = Some x"
| "coalesce None d = Some d"

text \<open>A column of a row that a \<open>LEFT JOIN\<close> may have padded with \<open>NULL\<close>s.\<close>

fun col :: "('r \<Rightarrow> 'a option) \<Rightarrow> 'r option \<Rightarrow> 'a option" where
  "col f None = None"
| "col f (Some r) = f r"

subsection \<open>Aggregates\<close>

fun non_null :: "'a option list \<Rightarrow> 'a list" where
  "non_null [] = []"
| "non_null (None # xs) = non_null xs"
| "non_null (Some x # xs) = x # non_null xs"

text \<open>\<open>SUM\<close> and \<open>MAX\<close> skip \<open>NULL\<close>s and are \<open>NULL\<close> when nothing is left.\<close>

definition sql_sum :: "num list \<Rightarrow> num" where
  "sql_sum xs = (if non_null xs = [] then None else Some (sum_list (non_null xs)))"

definition sql_max :: "('a::linorder) option list \<Rightarrow> 'a option" where
  "sql_max xs = (case non_null xs of [] \<Rightarrow> None | y # ys \<Rightarrow> Some (fold max ys y))"

definition count_distinct :: "'a option list \<Rightarrow> num" where
  "count_distinct xs = Some (real (length (remdups (non_null xs))))"

subsection \<open>Joins and grouping\<close>

definition inner_join :: "'a list \<Rightarrow> 'b list \<Rightarrow> ('a \<Rightarrow> 'b \<Rightarrow> bool option) \<Rightarrow> ('a \<times> 'b) list" where
  "inner_join as bs on = concat (map (\<lambda>a. map (Pair a) (filter (\<lambda>b. is_true (on a b)) bs)) as)"

definition left_join :: "'a list \<Rightarrow> 'b list \<Rightarrow> ('a \<Rightarrow> 'b \<Rightarrow> bool option) \<Rightarrow> ('a \<times> 'b option) list" where
  "left_join as bs on = concat (map (\<lambda>a.
     (case filter (\<lambda>b. is_true (on a b)) bs of
        [] \<Rightarrow> [(a, None)]
      | ms \<Rightarrow> map (\<lambda>b. (a, Some b)) ms)) as)"

text \<open>
  \<open>GROUP BY\<close>: one group for each distinct key, \<open>NULL\<close> keys being equal to each other
  (which is the equality of \<open>option\<close>). The order of the groups is the model's choice.
\<close>

definition group_by :: "('r \<Rightarrow> 'k) \<Rightarrow> 'r list \<Rightarrow> ('k \<times> 'r list) list" where
  "group_by key rows = map (\<lambda>k. (k, filter (\<lambda>r. key r = k) rows)) (remdups (map key rows))"

section \<open>Base tables\<close>

text \<open>
  The three base tables are created outside the program; their columns are those the
  scripts read. Keys are integers or text, measures are numbers, and any of them can be
  \<open>NULL\<close>.
\<close>

record sales_row =
  s_InventoryId :: "string option"
  s_Brand :: "string option"
  s_SalesQuantity :: num
  s_SalesDollars :: num

record purchases_row =
  p_InventoryId :: "string option"
  p_VendorNumber :: "int option"
  p_VendorName :: "string option"
  p_Brand :: "string option"
  p_Quantity :: num
  p_PurchasePrice :: num

record vendor_invoice_row =
  vi_VendorNumber :: "int option"
  vi_Quantity :: num
  vi_Dollars :: num
  vi_Freight :: num

section \<open>build_vendor_sales_summary\<close>

record sales_agg_row =
  sa_VendorNumber :: "int option"
  sa_VendorName :: "string option"
  sa_Brand :: "string option"
  sa_TotalSalesQuantity :: num
  sa_TotalSalesDollars :: num

record brand_purch_row =
  bp_VendorNumber :: "int option"
  bp_Brand :: "string option"
  bp_BrandPurchaseQuantity :: num
  bp_BrandPurchaseDollars :: num

record bp_vendor_tot_row =
  t_VendorNumber :: "int option"
  t_VendorBrandPurchDollars :: num

record vi_row =
  via_VendorNumber :: "int option"
  via_InvoicePurchaseQuantity :: num
  via_InvoicePurchaseDollars :: num
  via_Freight :: num

record joined_row =
  j_VendorNumber :: "int option"
  j_VendorName :: "string option"
  j_Brand :: "string option"
  j_TotalSalesQuantity :: num
  j_TotalSalesDollars :: num
  j_TotalPurchaseQuantity :: num
  j_TotalPurchaseDollars :: num
  j_FreightCost :: num

record vendor_sales_summary_row =
  VendorNumber :: "int option"
  VendorName :: "string option"
  Brand :: "string option"
  TotalSalesQuantity :: num
  TotalSalesDollars :: num
  TotalPurchaseQuantity :: num
  TotalPurchaseDollars :: num
  FreightCost :: num
  GrossProfit :: num
  ProfitMargin :: num

text \<open>The rows of \<^verbatim>\<open>sales s JOIN purchases p ON p.InventoryId = s.InventoryId\<close>.\<close>

definition sales_purchases :: "sales_row list \<Rightarrow> purchases_row list \<Rightarrow> (sales_row \<times> purchases_row) list" where
  "sales_purchases sales purchases =
     inner_join sales purchases (\<lambda>s p. sql_eq (p_InventoryId p) (s_InventoryId s))"

definition sales_agg_key :: "sales_row \<times> purchases_row \<Rightarrow> int option \<times> string option \<times> string option" where
  "sales_agg_key sp = (p_VendorNumber (snd sp), p_VendorName (snd sp), s_Brand (fst sp))"

definition sales_agg :: "sales_row list \<Rightarrow> purchases_row list \<Rightarrow> sales_agg_row list" where
  "sales_agg sales purchases =
     map (\<lambda>(k, g).
        \<lparr> sa_VendorNumber = fst k, sa_VendorName = fst (snd k), sa_Brand = snd (snd k),
          sa_TotalSalesQuantity = sql_sum (map (\<lambda>sp. s_SalesQuantity (fst sp)) g),
          sa_TotalSalesDollars = sql_sum (map (\<lambda>sp. s_SalesDollars (fst sp)) g) \<rparr>)
       (group_by sales_agg_key (sales_purchases sales purchases))"

definition brand_purch :: "purchases_row list \<Rightarrow> brand_purch_row list" where
  "brand_purch purchases =
     map (\<lambda>(k, g).
        \<lparr> bp_VendorNumber = fst k, bp_Brand = snd k,
          bp_BrandPurchaseQuantity = sql_sum (map p_Quantity g),
          bp_BrandPurchaseDollars = sql_sum (map (\<lambda>p. sql_mul (p_PurchasePrice p) (p_Quantity p)) g) \<rparr>)
       (group_by (\<lambda>p. (p_VendorNumber p, p_Brand p)) purchases)"

definition bp_vendor_tot :: "brand_purch_row list \<Rightarrow> bp_vendor_tot_row list" where
  "bp_vendor_tot bp =
     map (\<lambda>(k, g).
        \<lparr> t_VendorNumber = k,
          t_VendorBrandPurchDollars = sql_sum (map bp_BrandPurchaseDollars g) \<rparr>)
       (group_by bp_VendorNumber bp)"

definition vi :: "vendor_invoice_row list \<Rightarrow> vi_row list" where
  "vi vendor_invoice =
     map (\<lambda>(k, g).
        \<lparr> via_VendorNumber = k,
          via_InvoicePurchaseQuantity = sql_sum (map vi_Quantity g),
          via_InvoicePurchaseDollars = sql_sum (map vi_Dollars g),
          via_Freight = sql_sum (map vi_Freight g) \<rparr>)
       (group_by vi_VendorNumber vendor_invoice)"

text \<open>The select list of \<open>joined\<close>, on one row of the three left joins.\<close>

definition joined_select ::
  "((sales_agg_row \<times> brand_purch_row option) \<times> bp_vendor_tot_row option) \<times> vi_row option \<Rightarrow> joined_row" where
  "joined_select x =
     (case x of (((s, bp), t), v) \<Rightarrow>
        \<lparr> j_VendorNumber = sa_VendorNumber s,
          j_VendorName = sa_VendorName s,
          j_Brand = sa_Brand s,
          j_TotalSalesQuantity = coalesce (sa_TotalSalesQuantity s) 0,
          j_TotalSalesDollars = coalesce (sa_TotalSalesDollars s) 0,
          j_TotalPurchaseQuantity = coalesce (col bp_BrandPurchaseQuantity bp) 0,
          j_TotalPurchaseDollars = coalesce (col bp_BrandPurchaseDollars bp) 0,
          j_FreightCost =
            (if is_true (sql_and (sql_gt (coalesce (col via_Freight v) 0) (Some 0))
                                 (sql_gt (coalesce (col t_VendorBrandPurchDollars t) 0) (Some 0)))
             then sql_div (sql_mul (sql_mul (col via_Freight v)
                                            (coalesce (col bp_BrandPurchaseDollars bp) 0))
                                   (Some 1))
                          (col t_VendorBrandPurchDollars t)
             else Some 0) \<rparr>)"

definition joined ::
  "sales_agg_row list \<Rightarrow> brand_purch_row list \<Rightarrow> bp_vendor_tot_row list \<Rightarrow> vi_row list \<Rightarrow> joined_row list" where
  "joined sa bp t v =
     map joined_select
       (left_join
          (left_join
             (left_join sa bp
                (\<lambda>s b. sql_and (sql_eq (bp_VendorNumber b) (sa_VendorNumber s))
                                (sql_eq (bp_Brand b) (sa_Brand s))))
             t (\<lambda>x r. sql_eq (t_VendorNumber r) (sa_VendorNumber (fst x))))
          v (\<lambda>x r. sql_eq (via_VendorNumber r) (sa_VendorNumber (fst (fst x)))))"

definition summary_select :: "joined_row \<Rightarrow> vendor_sales_summary_row" where
  "summary_select j =
     \<lparr> VendorNumber = j_VendorNumber j,
       VendorName = j_VendorName j,
       Brand = j_Brand j,
       TotalSalesQuantity = j_TotalSalesQuantity j,
       TotalSalesDollars = j_TotalSalesDollars j,
       TotalPurchaseQuantity = j_TotalPurchaseQuantity j,
       TotalPurchaseDollars = j_TotalPurchaseDollars j,
       FreightCost = j_FreightCost j,
       GrossProfit = sql_sub (sql_sub (j_TotalSalesDollars j) (j_TotalPurchaseDollars j)) (j_FreightCost j),
       ProfitMargin =
         (if is_true (sql_gt (j_TotalSalesDollars j) (Some 0))
          then sql_div (sql_mul (Some 100)
                          (sql_sub (sql_sub (j_TotalSalesDollars j) (j_TotalPurchaseDollars j)) (j_FreightCost j)))
                       (j_TotalSalesDollars j)
          else Some 0) \<rparr>"

text \<open>The query of \<^verbatim>\<open>CREATE TABLE vendor_sales_summary AS ...\<close>.\<close>

definition vendor_sales_summary_query ::
  "sales_row list \<Rightarrow> purchases_row list \<Rightarrow> vendor_invoice_row list \<Rightarrow> vendor_sales_summary_row list" where
  "vendor_sales_summary_query sales purchases vendor_invoice =
     (let bp = brand_purch purchases
      in map summary_select
           (joined (sales_agg sales purchases) bp (bp_vendor_tot bp) (vi vendor_invoice)))"

section \<open>build_vendor_rollup\<close>

record vendor_summary_by_vendor_row =
  v_VendorNumber :: "int option"
  v_VendorName :: "string option"
  v_TotalSalesDol_in_summary :: num
  v_TotalSalesQty :: num
  v_TotalPurchaseDol :: num
  v_TotalPurchaseQty :: num
  v_FreightCost :: num
  v_GrossProfit :: num
  v_ProfitMargin :: num
  v_BrandCount :: num

definition rollup_select :: "int option \<times> vendor_sales_summary_row list \<Rightarrow> vendor_summary_by_vendor_row" where
  "rollup_select kg =
     (case kg of (k, g) \<Rightarrow>
        \<lparr> v_VendorNumber = k,
          v_VendorName = sql_max (map VendorName g),
          v_TotalSalesDol_in_summary = sql_sum (map TotalSalesDollars g),
          v_TotalSalesQty = sql_sum (map TotalSalesQuantity g),
          v_TotalPurchaseDol = sql_sum (map TotalPurchaseDollars g),
          v_TotalPurchaseQty = sql_sum (map TotalPurchaseQuantity g),
          v_FreightCost = sql_sum (map FreightCost g),
          v_GrossProfit =
            sql_sum (map (\<lambda>r. sql_sub (sql_sub (TotalSalesDollars r) (TotalPurchaseDollars r)) (FreightCost r)) g),
          v_ProfitMargin =
            (if is_true (sql_gt (sql_sum (map TotalSalesDollars g)) (Some 0))
             then sql_div
                    (sql_mul (Some 100)
                       (sql_sub (sql_sub (sql_sum (map TotalSalesDollars g))
                                         (sql_sum (map TotalPurchaseDollars g)))
                                (sql_sum (map FreightCost g))))
                    (sql_sum (map TotalSalesDollars g))
             else Some 0),
          v_BrandCount = count_distinct (map Brand g) \<rparr>)"

definition vendor_summary_by_vendor_query :: "vendor_sales_summary_row list \<Rightarrow> vendor_summary_by_vendor_row list" where
  "vendor_summary_by_vendor_query vss = map rollup_select (group_by VendorNumber vss)"

section \<open>build_spend_and_risk\<close>

record spend_by_vendor_row =
  sbv_VendorNumber :: "int option"
  sbv_TotalPurchaseDollars :: num
  sbv_TotalSalesDollars :: num

definition spend_by_vendor_query ::
  "vendor_invoice_row list \<Rightarrow> vendor_sales_summary_row list \<Rightarrow> spend_by_vendor_row list" where
  "spend_by_vendor_query vendor_invoice vss =
     map (\<lambda>(k, g).
        \<lparr> sbv_VendorNumber = k,
          sbv_TotalPurchaseDollars = sql_sum (map vi_Dollars g),
          sbv_TotalSalesDollars =
            coalesce (sql_sum (map TotalSalesDollars
                        (filter (\<lambda>s. is_true (sql_eq (VendorNumber s) k)) vss))) 0 \<rparr>)
       (group_by vi_VendorNumber vendor_invoice)"

record vendor_risk_flags_row =
  rf_VendorNumber :: "int option"
  rf_neg_SalesQty :: num
  rf_neg_SalesDol :: num
  rf_neg_PurchQty :: num
  rf_neg_PurchDol :: num
  rf_neg_Freight :: num

text \<open>\<^verbatim>\<open>CASE WHEN c THEN 1 ELSE 0 END\<close>.\<close>

definition flag :: "bool option \<Rightarrow> num" where
  "flag c = (if is_true c then Some 1 else Some 0)"

definition vendor_risk_flags_query :: "vendor_sales_summary_row list \<Rightarrow> vendor_risk_flags_row list" where
  "vendor_risk_flags_query vss =
     map (\<lambda>(k, g).
        \<lparr> rf_VendorNumber = k,
          rf_neg_SalesQty = sql_sum (map (\<lambda>r. flag (sql_lt (TotalSalesQuantity r) (Some 0))) g),
          rf_neg_SalesDol = sql_sum (map (\<lambda>r. flag (sql_lt (TotalSalesDollars r) (Some 0))) g),
          rf_neg_PurchQty = sql_sum (map (\<lambda>r. flag (sql_lt (TotalPurchaseQuantity r) (Some 0))) g),
          rf_neg_PurchDol = sql_sum (map (\<lambda>r. flag (sql_lt (TotalPurchaseDollars r) (Some 0))) g),
          rf_neg_Freight = sql_sum (map (\<lambda>r. flag (sql_lt (FreightCost r) (Some 0))) g) \<rparr>)
       (group_by VendorNumber vss)"

section \<open>build_brand_pricing\<close>

record brand_pricing_row =
  b_VendorNumber :: "int option"
  b_VendorName :: "string option"
  b_Brand :: "string option"
  b_TotalSalesQuantity :: num
  b_TotalSalesDollars :: num
  b_TotalPurchaseDollars :: num
  b_FreightCost :: num

definition brand_pricing_query :: "vendor_sales_summary_row list \<Rightarrow> brand_pricing_row list" where
  "brand_pricing_query vss =
     map (\<lambda>(k, g).
        \<lparr> b_VendorNumber = fst k, b_VendorName = fst (snd k), b_Brand = snd (snd k),
          b_TotalSalesQuantity = sql_sum (map TotalSalesQuantity g),
          b_TotalSalesDollars = sql_sum (map TotalSalesDollars g),
          b_TotalPurchaseDollars = sql_sum (map TotalPurchaseDollars g),
          b_FreightCost = sql_sum (map FreightCost g) \<rparr>)
       (group_by (\<lambda>r. (VendorNumber r, VendorName r, Brand r)) vss)"

section \<open>build_brand_pricing_opps\<close>

text \<open>
  Each of the common table expressions \<open>b\<close>, \<open>need\<close> and \<open>calc\<close> is \<^verbatim>\<open>SELECT *, ...\<close>
  over the one before: it adds columns to every row of \<open>brand_pricing\<close>. The added
  columns are functions of that row and of the bound parameter \<open>?\<close> (the target margin).
\<close>

definition AvgSalesPrice :: "brand_pricing_row \<Rightarrow> num" where
  "AvgSalesPrice r =
     (if is_true (sql_gt (b_TotalSalesDollars r) (Some 0))
      then sql_div (b_TotalSalesDollars r) (sql_mul (b_TotalSalesQuantity r) (Some 1))
      else None)"

definition AvgPurchasePrice :: "brand_pricing_row \<Rightarrow> num" where
  "AvgPurchasePrice r =
     (if is_true (sql_gt (b_TotalPurchaseDollars r) (Some 0))
      then sql_div (b_TotalPurchaseDollars r) (sql_mul (b_TotalSalesQuantity r) (Some 1))
      else None)"

definition RequiredSalesDollars :: "real \<Rightarrow> brand_pricing_row \<Rightarrow> num" where
  "RequiredSalesDollars target r =
     (if is_true (sql_le (sql_add (b_TotalPurchaseDollars r) (b_FreightCost r)) (Some 0))
      then Some 0
      else sql_div (sql_mul (sql_add (b_TotalPurchaseDollars r) (b_FreightCost r)) (Some 1))
                   (sql_sub (Some 1) (Some target)))"

definition UpsideDollars :: "real \<Rightarrow> brand_pricing_row \<Rightarrow> num" where
  "UpsideDollars target r =
     (if is_true (sql_gt (RequiredSalesDollars target r) (b_TotalSalesDollars r))
      then sql_sub (RequiredSalesDollars target r) (b_TotalSalesDollars r)
      else Some 0)"

definition NeededPriceDeltaPerUnit :: "real \<Rightarrow> brand_pricing_row \<Rightarrow> num" where
  "NeededPriceDeltaPerUnit target r =
     (if is_true (sql_gt (b_TotalSalesQuantity r) (Some 0))
      then (if is_true (sql_gt (RequiredSalesDollars target r) (b_TotalSalesDollars r))
            then sql_div (sql_sub (RequiredSalesDollars target r) (b_TotalSalesDollars r))
                         (sql_mul (b_TotalSalesQuantity r) (Some 1))
            else Some 0)
      else None)"

record brand_pricing_opportunities_row =
  o_VendorNumber :: "int option"
  o_VendorName :: "string option"
  o_Brand :: "string option"
  o_TotalSalesQuantity :: num
  o_TotalSalesDollars :: num
  o_TotalPurchaseDollars :: num
  o_FreightCost :: num
  o_AvgSalesPrice :: num
  o_TargetMargin :: num
  o_RequiredSalesDollars :: num
  o_UpsideDollars :: num
  o_NeededPriceDeltaPerUnit :: num

definition opps_select :: "real \<Rightarrow> brand_pricing_row \<Rightarrow> brand_pricing_opportunities_row" where
  "opps_select target r =
     \<lparr> o_VendorNumber = b_VendorNumber r,
       o_VendorName = b_VendorName r,
       o_Brand = b_Brand r,
       o_TotalSalesQuantity = b_TotalSalesQuantity r,
       o_TotalSalesDollars = b_TotalSalesDollars r,
       o_TotalPurchaseDollars = b_TotalPurchaseDollars r,
       o_FreightCost = b_FreightCost r,
       o_AvgSalesPrice = AvgSalesPrice r,
       o_TargetMargin = Some target,
       o_RequiredSalesDollars = RequiredSalesDollars target r,
       o_UpsideDollars = UpsideDollars target r,
       o_NeededPriceDeltaPerUnit = NeededPriceDeltaPerUnit target r \<rparr>"

definition brand_pricing_opportunities_query ::
  "real \<Rightarrow> brand_pricing_row list \<Rightarrow> brand_pricing_opportunities_row list" where
  "brand_pricing_opportunities_query target bp = map (opps_select target) bp"

section \<open>build_finals\<close>

record final_vendor_row =
  fv_VendorNumber :: "int option"
  fv_VendorName :: "string option"
  fv_TotalSalesDollars :: num
  fv_TotalSalesQuantity :: num
  fv_TotalPurchaseDollars :: num
  fv_TotalPurchaseQuantity :: num
  fv_FreightCost :: num
  fv_GrossProfit :: num
  fv_CurrentMargin :: num
  fv_TargetMargin :: num
  fv_RequiredSalesDollars :: num
  fv_UpsideDollars :: num
  fv_NeededPriceDeltaPerUnit :: num

definition final_vendor_query :: "vendor_summary_by_vendor_row list \<Rightarrow> final_vendor_row list" where
  "final_vendor_query vs =
     map (\<lambda>v.
        \<lparr> fv_VendorNumber = v_VendorNumber v,
          fv_VendorName = v_VendorName v,
          fv_TotalSalesDollars = v_TotalSalesDol_in_summary v,
          fv_TotalSalesQuantity = v_TotalSalesQty v,
          fv_TotalPurchaseDollars = v_TotalPurchaseDol v,
          fv_TotalPurchaseQuantity = v_TotalPurchaseQty v,
          fv_FreightCost = v_FreightCost v,
          fv_GrossProfit = v_GrossProfit v,
          fv_CurrentMargin = v_ProfitMargin v,
          fv_TargetMargin = None,
          fv_RequiredSalesDollars = None,
          fv_UpsideDollars = None,
          fv_NeededPriceDeltaPerUnit = None \<rparr>) vs"

record final_brand_row =
  fb_VendorNumber :: "int option"
  fb_VendorName :: "string option"
  fb_Brand :: "string option"
  fb_TotalSalesDollars :: num
  fb_TotalSalesQuantity :: num
  fb_TotalPurchaseDollars :: num
  fb_TotalPurchaseQuantity :: num
  fb_FreightCost :: num
  fb_GrossProfit :: num
  fb_CurrentMargin :: num
  fb_TargetMargin :: num
  fb_RequiredSalesDollars :: num
  fb_UpsideDollars :: num
  fb_NeededPriceDeltaPerUnit :: num

definition final_brand_query ::
  "vendor_sales_summary_row list \<Rightarrow> brand_pricing_opportunities_row list \<Rightarrow> final_brand_row list" where
  "final_brand_query vss opps =
     map (\<lambda>(s, bpo).
        \<lparr> fb_VendorNumber = VendorNumber s,
          fb_VendorName = VendorName s,
          fb_Brand = Brand s,
          fb_TotalSalesDollars = TotalSalesDollars s,
          fb_TotalSalesQuantity = TotalSalesQuantity s,
          fb_TotalPurchaseDollars = TotalPurchaseDollars s,
          fb_TotalPurchaseQuantity = TotalPurchaseQuantity s,
          fb_FreightCost = FreightCost s,
          fb_GrossProfit = GrossProfit s,
          fb_CurrentMargin = ProfitMargin s,
          fb_TargetMargin = col o_TargetMargin bpo,
          fb_RequiredSalesDollars = col o_RequiredSalesDollars bpo,
          fb_UpsideDollars = col o_UpsideDollars bpo,
          fb_NeededPriceDeltaPerUnit = col o_NeededPriceDeltaPerUnit bpo \<rparr>)
       (left_join vss opps
          (\<lambda>s bpo. sql_and (sql_eq (o_VendorNumber bpo) (VendorNumber s))
                            (sql_eq (o_Brand bpo) (Brand s))))"

record final_all_row =
  fa_Level :: "string option"
  fa_VendorNumber :: "int option"
  fa_VendorName :: "string option"
  fa_Brand :: "string option"
  fa_TotalSalesDollars :: num
  fa_TotalSalesQuantity :: num
  fa_TotalPurchaseDollars :: num
  fa_TotalPurchaseQuantity :: num
  fa_FreightCost :: num
  fa_GrossProfit :: num
  fa_CurrentMargin :: num
  fa_BrandCount :: num
  fa_TargetMargin :: num
  fa_RequiredSalesDollars :: num
  fa_UpsideDollars :: num
  fa_NeededPriceDeltaPerUnit :: num

definition final_all_query :: "final_vendor_row list \<Rightarrow> final_brand_row list \<Rightarrow> final_all_row list" where
  "final_all_query fvs fbs =
     map (\<lambda>r.
        \<lparr> fa_Level = Some ''vendor'',
          fa_VendorNumber = fv_VendorNumber r,
          fa_VendorName = fv_VendorName r,
          fa_Brand = None,
          fa_TotalSalesDollars = fv_TotalSalesDollars r,
          fa_TotalSalesQuantity = fv_TotalSalesQuantity r,
          fa_TotalPurchaseDollars = fv_TotalPurchaseDollars r,
          fa_TotalPurchaseQuantity = fv_TotalPurchaseQuantity r,
          fa_FreightCost = fv_FreightCost r,
          fa_GrossProfit = fv_GrossProfit r,
          fa_CurrentMargin = fv_CurrentMargin r,
          fa_BrandCount = None,
          fa_TargetMargin = fv_TargetMargin r,
          fa_RequiredSalesDollars = fv_RequiredSalesDollars r,
          fa_UpsideDollars = fv_UpsideDollars r,
          fa_NeededPriceDeltaPerUnit = fv_NeededPriceDeltaPerUnit r \<rparr>) fvs
     @
     map (\<lambda>r.
        \<lparr> fa_Level = Some ''brand'',
          fa_VendorNumber = fb_VendorNumber r,
          fa_VendorName = fb_VendorName r,
          fa_Brand = fb_Brand r,
          fa_TotalSalesDollars = fb_TotalSalesDollars r,
          fa_TotalSalesQuantity = fb_TotalSalesQuantity r,
          fa_TotalPurchaseDollars = fb_TotalPurchaseDollars r,
          fa_TotalPurchaseQuantity = fb_TotalPurchaseQuantity r,
          fa_FreightCost = fb_FreightCost r,
          fa_GrossProfit = fb_GrossProfit r,
          fa_CurrentMargin = fb_CurrentMargin r,
          fa_BrandCount = None,
          fa_TargetMargin = fb_TargetMargin r,
          fa_RequiredSalesDollars = fb_RequiredSalesDollars r,
          fa_UpsideDollars = fb_UpsideDollars r,
          fa_NeededPriceDeltaPerUnit = fb_NeededPriceDeltaPerUnit r \<rparr>) fbs"

section \<open>The database and the pipeline\<close>

text \<open>
  The state of the database: each table the program reads or writes is present
  (\<open>Some rows\<close>) or absent (\<open>None\<close>), and \<open>indexes\<close> holds the names of the indexes that
  exist. A step returns the state it leaves behind and the exception it raised, if any.
  Each statement of a script is committed as it runs, so a step that fails leaves the
  effect of the statements before the failing one.
\<close>

record db =
  sales :: "sales_row list option"
  purchases :: "purchases_row list option"
  vendor_invoice :: "vendor_invoice_row list option"
  indexes :: "string set"
  vendor_sales_summary :: "vendor_sales_summary_row list option"
  vendor_summary_by_vendor :: "vendor_summary_by_vendor_row list option"
  spend_by_vendor :: "spend_by_vendor_row list option"
  vendor_risk_flags :: "vendor_risk_flags_row list option"
  brand_pricing :: "brand_pricing_row list option"
  brand_pricing_opportunities :: "brand_pricing_opportunities_row list option"
  final_vendor :: "final_vendor_row list option"
  final_brand :: "final_brand_row list option"
  final_all :: "final_all_row list option"

text \<open>
  \<open>RuntimeError names\<close> is the exception of \<open>require_tables\<close>, whose message is
  \<^verbatim>\<open>Missing base tables in DB: \<close> followed by the list \<open>names\<close>; \<open>OperationalError\<close> is
  SQLite's error for a statement that names a table that does not exist.
\<close>

datatype error = RuntimeError "string list" | OperationalError

type_synonym outcome = "db \<times> error option"

definition and_then :: "outcome \<Rightarrow> (db \<Rightarrow> outcome) \<Rightarrow> outcome" where
  "and_then r f = (case r of (d, None) \<Rightarrow> f d | (d, Some e) \<Rightarrow> (d, Some e))"

text \<open>
  \<^verbatim>\<open>SELECT name FROM sqlite_master WHERE type='table'\<close>, as a set. Only the tables the
  program reads or writes are in the state; \<open>require_tables\<close> is never asked about any
  other name. The source calls the set \<open>have\<close>.
\<close>

definition have_tables :: "db \<Rightarrow> string set" where
  "have_tables d =
     (if sales d = None then {} else {''sales''}) \<union>
     (if purchases d = None then {} else {''purchases''}) \<union>
     (if vendor_invoice d = None then {} else {''vendor_invoice''}) \<union>
     (if vendor_sales_summary d = None then {} else {''vendor_sales_summary''}) \<union>
     (if vendor_summary_by_vendor d = None then {} else {''vendor_summary_by_vendor''}) \<union>
     (if spend_by_vendor d = None then {} else {''spend_by_vendor''}) \<union>
     (if vendor_risk_flags d = None then {} else {''vendor_risk_flags''}) \<union>
     (if brand_pricing d = None then {} else {''brand_pricing''}) \<union>
     (if brand_pricing_opportunities d = None then {} else {''brand_pricing_opportunities''}) \<union>
     (if final_vendor d = None then {} else {''final_vendor''}) \<union>
     (if final_brand d = None then {} else {''final_brand''}) \<union>
     (if final_all d = None then {} else {''final_all''})"

definition require_tables :: "db \<Rightarrow> string list \<Rightarrow> outcome" where
  "require_tables d names =
     (let missing = filter (\<lambda>n. n \<notin> have_tables d) names
      in if missing \<noteq> [] then (d, Some (RuntimeError missing)) else (d, None))"

text \<open>\<^verbatim>\<open>CREATE INDEX IF NOT EXISTS name ON table(...)\<close>.\<close>

definition create_index :: "string \<Rightarrow> bool \<Rightarrow> db \<Rightarrow> outcome" where
  "create_index name table_present d =
     (if table_present then (d\<lparr>indexes := insert name (indexes d)\<rparr>, None)
      else (d, Some OperationalError))"

definition ensure_indexes :: "db \<Rightarrow> outcome" where
  "ensure_indexes d =
     and_then (and_then (and_then
       (create_index ''idx_sales_inventory'' (sales d \<noteq> None) d)
       (\<lambda>d. create_index ''idx_purchases_inventory'' (purchases d \<noteq> None) d))
       (\<lambda>d. create_index ''idx_purchases_vendor'' (purchases d \<noteq> None) d))
       (\<lambda>d. create_index ''idx_vi_vendor'' (vendor_invoice d \<noteq> None) d)"

definition build_vendor_sales_summary :: "db \<Rightarrow> outcome" where
  "build_vendor_sales_summary d0 =
     (let d = d0\<lparr>vendor_sales_summary := None\<rparr>
      in case (sales d, purchases d, vendor_invoice d) of
           (Some s, Some p, Some v) \<Rightarrow>
             (d\<lparr>vendor_sales_summary := Some (vendor_sales_summary_query s p v)\<rparr>, None)
         | _ \<Rightarrow> (d, Some OperationalError))"

definition build_vendor_rollup :: "db \<Rightarrow> outcome" where
  "build_vendor_rollup d0 =
     (let d = d0\<lparr>vendor_summary_by_vendor := None\<rparr>
      in case vendor_sales_summary d of
           Some vss \<Rightarrow> (d\<lparr>vendor_summary_by_vendor := Some (vendor_summary_by_vendor_query vss)\<rparr>, None)
         | None \<Rightarrow> (d, Some OperationalError))"

definition build_spend_and_risk :: "db \<Rightarrow> outcome" where
  "build_spend_and_risk d0 =
     (let d1 = d0\<lparr>spend_by_vendor := None\<rparr>
      in case (vendor_invoice d1, vendor_sales_summary d1) of
           (Some v, Some vss) \<Rightarrow>
             (let d2 = d1\<lparr>spend_by_vendor := Some (spend_by_vendor_query v vss)\<rparr>;
                  d3 = d2\<lparr>vendor_risk_flags := None\<rparr>
              in (d3\<lparr>vendor_risk_flags := Some (vendor_risk_flags_query vss)\<rparr>, None))
         | _ \<Rightarrow> (d1, Some OperationalError))"

definition build_brand_pricing :: "db \<Rightarrow> outcome" where
  "build_brand_pricing d0 =
     (let d = d0\<lparr>brand_pricing := None\<rparr>
      in case vendor_sales_summary d of
           Some vss \<Rightarrow> (d\<lparr>brand_pricing := Some (brand_pricing_query vss)\<rparr>, None)
         | None \<Rightarrow> (d, Some OperationalError))"

definition build_brand_pricing_opps :: "db \<Rightarrow> real \<Rightarrow> outcome" where
  "build_brand_pricing_opps d0 target_margin =
     (let d = d0\<lparr>brand_pricing_opportunities := None\<rparr>
      in case brand_pricing d of
           Some bp \<Rightarrow>
             (d\<lparr>brand_pricing_opportunities :=
                  Some (brand_pricing_opportunities_query target_margin bp)\<rparr>, None)
         | None \<Rightarrow> (d, Some OperationalError))"

definition build_finals :: "db \<Rightarrow> outcome" where
  "build_finals d0 =
     (let d1 = d0\<lparr>final_vendor := None\<rparr>
      in case vendor_summary_by_vendor d1 of
           None \<Rightarrow> (d1, Some OperationalError)
         | Some v \<Rightarrow>
             (let d2 = d1\<lparr>final_vendor := Some (final_vendor_query v)\<rparr>;
                  d3 = d2\<lparr>final_brand := None\<rparr>
              in case (vendor_sales_summary d3, brand_pricing_opportunities d3) of
                   (Some s, Some bpo) \<Rightarrow>
                     (let d4 = d3\<lparr>final_brand := Some (final_brand_query s bpo)\<rparr>;
                          d5 = d4\<lparr>final_all := None\<rparr>
                      in case (final_vendor d5, final_brand d5) of
                           (Some fv, Some fb) \<Rightarrow> (d5\<lparr>final_all := Some (final_all_query fv fb)\<rparr>, None)
                         | _ \<Rightarrow> (d5, Some OperationalError))
                 | _ \<Rightarrow> (d3, Some OperationalError)))"

text \<open>
  The body of \<open>main\<close> between \<open>try\<close> and \<open>finally\<close>. The export to CSV files and
  \<open>ANALYZE\<close> read the finished tables and change none of them; they are left out.
\<close>

definition main :: "db \<Rightarrow> real \<Rightarrow> outcome" where
  "main d target =
     and_then (and_then (and_then (and_then (and_then (and_then (and_then
       (require_tables d [''purchases'', ''vendor_invoice'', ''sales''])
       ensure_indexes)
       build_vendor_sales_summary)
       build_vendor_rollup)
       build_spend_and_risk)
       build_brand_pricing)
       (\<lambda>d. build_brand_pricing_opps d target))
       build_finals"

section \<open>Quantities the specification names\<close>

text \<open>
  The specification speaks of a vendor's total invoice freight, of a brand's purchase
  dollars and of a vendor's total purchase dollars. They are defined here on the base
  tables, with the condition a \<open>WHERE\<close> clause would have (a \<open>NULL\<close> key selects
  nothing), so that the tables the scripts build can be compared with them.
\<close>

definition value_or_zero :: "num \<Rightarrow> real" where
  "value_or_zero x = (case x of None \<Rightarrow> 0 | Some y \<Rightarrow> y)"

definition brand_purchase_dollars :: "purchases_row list \<Rightarrow> int option \<Rightarrow> string option \<Rightarrow> num" where
  "brand_purchase_dollars ps v b =
     sql_sum (map (\<lambda>p. sql_mul (p_PurchasePrice p) (p_Quantity p))
       (filter (\<lambda>p. is_true (sql_and (sql_eq (p_VendorNumber p) v) (sql_eq (p_Brand p) b))) ps))"

definition brand_purchase_quantity :: "purchases_row list \<Rightarrow> int option \<Rightarrow> string option \<Rightarrow> num" where
  "brand_purchase_quantity ps v b =
     sql_sum (map p_Quantity
       (filter (\<lambda>p. is_true (sql_and (sql_eq (p_VendorNumber p) v) (sql_eq (p_Brand p) b))) ps))"

definition vendor_purchase_dollars :: "purchases_row list \<Rightarrow> int option \<Rightarrow> num" where
  "vendor_purchase_dollars ps v =
     sql_sum (map (\<lambda>p. sql_mul (p_PurchasePrice p) (p_Quantity p))
       (filter (\<lambda>p. is_true (sql_eq (p_VendorNumber p) v)) ps))"

definition vendor_freight :: "vendor_invoice_row list \<Rightarrow> int option \<Rightarrow> num" where
  "vendor_freight vis v =
     sql_sum (map vi_Freight (filter (\<lambda>r. is_true (sql_eq (vi_VendorNumber r) v)) vis))"

text \<open>
  The freight of a (vendor, brand) in the specification's words: the invoice freight
  times the brand's purchase dollars over the vendor's total purchase dollars when the
  freight and the total are both strictly positive, else 0.
\<close>

definition freight_share :: "purchases_row list \<Rightarrow> vendor_invoice_row list \<Rightarrow> int option \<Rightarrow> string option \<Rightarrow> real" where
  "freight_share ps vis v b =
     (case (vendor_freight vis v, vendor_purchase_dollars ps v) of
        (Some f, Some t) \<Rightarrow>
          if 0 < f \<and> 0 < t then f * value_or_zero (brand_purchase_dollars ps v b) / t else 0
      | _ \<Rightarrow> 0)"

text \<open>The row of \<open>vendor_sales_summary\<close> that the specification describes for a row of \<open>sales_agg\<close>.\<close>

definition summary_row :: "purchases_row list \<Rightarrow> vendor_invoice_row list \<Rightarrow> sales_agg_row \<Rightarrow> vendor_sales_summary_row" where
  "summary_row ps vis s =
     (let v = sa_VendorNumber s; b = sa_Brand s;
          sd = value_or_zero (sa_TotalSalesDollars s);
          pd = value_or_zero (brand_purchase_dollars ps v b);
          fc = freight_share ps vis v b
      in \<lparr> VendorNumber = v, VendorName = sa_VendorName s, Brand = b,
           TotalSalesQuantity = Some (value_or_zero (sa_TotalSalesQuantity s)),
           TotalSalesDollars = Some sd,
           TotalPurchaseQuantity = Some (value_or_zero (brand_purchase_quantity ps v b)),
           TotalPurchaseDollars = Some pd,
           FreightCost = Some fc,
           GrossProfit = Some (sd - pd - fc),
           ProfitMargin = Some (if 0 < sd then 100 * (sd - pd - fc) / sd else 0) \<rparr>)"

section \<open>Example tables\<close>

text \<open>
  The example of the specification: vendor 1 has invoice freight 100 and bought brand
  \<open>A\<close> for 300 dollars and brand \<open>B\<close> for 700 dollars; both brands were sold.
\<close>

definition ex_sales :: "sales_row list" where
  "ex_sales =
     [\<lparr> s_InventoryId = Some ''i1'', s_Brand = Some ''A'', s_SalesQuantity = Some 10, s_SalesDollars = Some 500 \<rparr>,
      \<lparr> s_InventoryId = Some ''i2'', s_Brand = Some ''B'', s_SalesQuantity = Some 5, s_SalesDollars = Some 1000 \<rparr>]"

definition ex_purchases :: "purchases_row list" where
  "ex_purchases =
     [\<lparr> p_InventoryId = Some ''i1'', p_VendorNumber = Some 1, p_VendorName = Some ''V1'',
        p_Brand = Some ''A'', p_Quantity = Some 30, p_PurchasePrice = Some 10 \<rparr>,
      \<lparr> p_InventoryId = Some ''i2'', p_VendorNumber = Some 1, p_VendorName = Some ''V1'',
        p_Brand = Some ''B'', p_Quantity = Some 70, p_PurchasePrice = Some 10 \<rparr>]"

definition ex_vendor_invoice :: "vendor_invoice_row list" where
  "ex_vendor_invoice =
     [\<lparr> vi_VendorNumber = Some 1, vi_Quantity = Some 100, vi_Dollars = Some 1000, vi_Freight = Some 100 \<rparr>]"

text \<open>
  The key the specification gives \<open>vendor_sales_summary\<close>, the key the script groups by, and
  the (vendor, brand) pair of a row of the join of sales and purchases.
\<close>

definition vendor_brand :: "vendor_sales_summary_row \<Rightarrow> int option \<times> string option" where
  "vendor_brand r = (VendorNumber r, Brand r)"

definition vendor_name_brand :: "vendor_sales_summary_row \<Rightarrow> int option \<times> string option \<times> string option" where
  "vendor_name_brand r = (VendorNumber r, VendorName r, Brand r)"

definition join_vendor_brand :: "sales_row \<times> purchases_row \<Rightarrow> int option \<times> string option" where
  "join_vendor_brand sp = (p_VendorNumber (snd sp), s_Brand (fst sp))"

text \<open>Every vendor number of the join carries one vendor name.\<close>

definition single_vendor_name :: "(sales_row \<times> purchases_row) list \<Rightarrow> bool" where
  "single_vendor_name js =
     (\<forall>x \<in> set js. \<forall>y \<in> set js.
        p_VendorNumber (snd x) = p_VendorNumber (snd y) \<longrightarrow> p_VendorName (snd x) = p_VendorName (snd y))"

text \<open>One vendor number bought the same brand under two spellings of its name.\<close>

definition renamed_sales :: "sales_row list" where
  "renamed_sales =
     [\<lparr> s_InventoryId = Some ''i1'', s_Brand = Some ''A'', s_SalesQuantity = Some 1, s_SalesDollars = Some 10 \<rparr>,
      \<lparr> s_InventoryId = Some ''i2'', s_Brand = Some ''A'', s_SalesQuantity = Some 1, s_SalesDollars = Some 10 \<rparr>]"

definition renamed_purchases :: "purchases_row list" where
  "renamed_purchases =
     [\<lparr> p_InventoryId = Some ''i1'', p_VendorNumber = Some 1, p_VendorName = Some ''ACME'',
        p_Brand = Some ''A'', p_Quantity = Some 1, p_PurchasePrice = Some 5 \<rparr>,
      \<lparr> p_InventoryId = Some ''i2'', p_VendorNumber = Some 1, p_VendorName = Some ''ACME INC'',
        p_Brand = Some ''A'', p_Quantity = Some 1, p_PurchasePrice = Some 5 \<rparr>]"




text \<open>A vendor whose only purchase and only sale have quantity 0.\<close>

definition idle_sales :: "sales_row list" where
  "idle_sales =
     [\<lparr> s_InventoryId = Some ''i1'', s_Brand = Some ''A'', s_SalesQuantity = Some 0, s_SalesDollars = Some 0 \<rparr>]"

definition idle_purchases :: "purchases_row list" where
  "idle_purchases =
     [\<lparr> p_InventoryId = Some ''i1'', p_VendorNumber = Some 1, p_VendorName = Some ''V1'',
        p_Brand = Some ''A'', p_Quantity = Some 0, p_PurchasePrice = Some 10 \<rparr>]"

text \<open>
  The rows of \<open>vendor_sales_summary\<close> that \<open>GROUP BY VendorNumber\<close> puts in the group of a
  vendor, the margin recomputed from the sums over them, and the average of their
  margins.
\<close>

definition vendor_rows :: "vendor_sales_summary_row list \<Rightarrow> int option \<Rightarrow> vendor_sales_summary_row list" where
  "vendor_rows vss v = filter (\<lambda>r. VendorNumber r = v) vss"

definition rolled_up_margin :: "vendor_sales_summary_row list \<Rightarrow> int option \<Rightarrow> real" where
  "rolled_up_margin vss v =
     (let gp = sum_list (map (\<lambda>r. value_or_zero (GrossProfit r)) (vendor_rows vss v));
          sd = sum_list (map (\<lambda>r. value_or_zero (TotalSalesDollars r)) (vendor_rows vss v))
      in if 0 < sd then 100 * gp / sd else 0)"

definition average_brand_margin :: "vendor_sales_summary_row list \<Rightarrow> int option \<Rightarrow> real" where
  "average_brand_margin vss v =
     sum_list (map (\<lambda>r. value_or_zero (ProfitMargin r)) (vendor_rows vss v)) /
       real (length (vendor_rows vss v))"



text \<open>A database with no table, and one that holds the example's base tables only.\<close>

definition empty_db :: db where
  "empty_db =
     \<lparr> sales = None, purchases = None, vendor_invoice = None, indexes = {},
       vendor_sales_summary = None, vendor_summary_by_vendor = None, spend_by_vendor = None,
       vendor_risk_flags = None, brand_pricing = None, brand_pricing_opportunities = None,
       final_vendor = None, final_brand = None, final_all = None \<rparr>"

definition ex_db :: db where
  "ex_db = empty_db \<lparr> sales := Some ex_sales, purchases := Some ex_purchases,
                       vendor_invoice := Some ex_vendor_invoice \<rparr>"


section \<open>Binary64 arithmetic\<close>

text \<open>
  SQLite computes on \<open>REAL\<close> values in the IEEE binary64 format: each operation returns
  the exact result rounded to the nearest number with a 53-bit significand, ties going
  to the even significand. \<open>b64\<close> is that rounding for numbers in the normal range
  (overflow and subnormal numbers are left out); \<open>binade\<close> finds the exponent \<open>e\<close> with
  \<open>2^e \<le> |x| < 2^(e+1)\<close>, its first argument bounding the search beyond the exponents
  of the format. \<open>r_add rnd\<close>, \<open>r_sub rnd\<close>, \<open>r_mul rnd\<close> and \<open>r_div rnd\<close> are the operators
  whose result is rounded by \<open>rnd\<close>, and \<open>r_sum rnd\<close> adds the values that are not \<open>NULL\<close>
  one row after the other; with \<open>rnd = id\<close> they are the exact operators above.
\<close>

definition round_half_even :: "real \<Rightarrow> int" where
  "round_half_even y =
     (let f = \<lfloor>y\<rfloor>; d = y - of_int f
      in if d < 1 / 2 then f else if 1 / 2 < d then f + 1 else if even f then f else f + 1)"

fun binade :: "nat \<Rightarrow> real \<Rightarrow> int \<Rightarrow> int" where
  "binade 0 y e = e"
| "binade (Suc n) y e =
     (if y < 1 then binade n (2 * y) (e - 1)
      else if 2 \<le> y then binade n (y / 2) (e + 1)
      else e)"

definition pow2 :: "int \<Rightarrow> real" where
  "pow2 e = (if 0 \<le> e then 2 ^ nat e else 1 / 2 ^ nat (- e))"

definition b64 :: "real \<Rightarrow> real" where
  "b64 x =
     (if x = 0 then 0
      else let e = binade 2200 \<bar>x\<bar> 0 - 52
           in of_int (round_half_even (x / pow2 e)) * pow2 e)"

definition r_add :: "(real \<Rightarrow> real) \<Rightarrow> num \<Rightarrow> num \<Rightarrow> num" where
  "r_add rnd a b = map_option rnd (sql_add a b)"

definition r_sub :: "(real \<Rightarrow> real) \<Rightarrow> num \<Rightarrow> num \<Rightarrow> num" where
  "r_sub rnd a b = map_option rnd (sql_sub a b)"

definition r_mul :: "(real \<Rightarrow> real) \<Rightarrow> num \<Rightarrow> num \<Rightarrow> num" where
  "r_mul rnd a b = map_option rnd (sql_mul a b)"

definition r_div :: "(real \<Rightarrow> real) \<Rightarrow> num \<Rightarrow> num \<Rightarrow> num" where
  "r_div rnd a b = map_option rnd (sql_div a b)"

definition r_sum :: "(real \<Rightarrow> real) \<Rightarrow> num list \<Rightarrow> num" where
  "r_sum rnd xs = (case non_null xs of [] \<Rightarrow> None | y # ys \<Rightarrow> Some (foldl (\<lambda>a x. rnd (a + x)) y ys))"

text \<open>
  The select lists of \<open>vendor_sales_summary\<close> and of \<open>vendor_summary_by_vendor\<close> once
  more, with every arithmetic result rounded by \<open>rnd\<close>.
\<close>

definition summary_select_rounded :: "(real \<Rightarrow> real) \<Rightarrow> joined_row \<Rightarrow> vendor_sales_summary_row" where
  "summary_select_rounded rnd j =
     \<lparr> VendorNumber = j_VendorNumber j,
       VendorName = j_VendorName j,
       Brand = j_Brand j,
       TotalSalesQuantity = j_TotalSalesQuantity j,
       TotalSalesDollars = j_TotalSalesDollars j,
       TotalPurchaseQuantity = j_TotalPurchaseQuantity j,
       TotalPurchaseDollars = j_TotalPurchaseDollars j,
       FreightCost = j_FreightCost j,
       GrossProfit =
         r_sub rnd (r_sub rnd (j_TotalSalesDollars j) (j_TotalPurchaseDollars j)) (j_FreightCost j),
       ProfitMargin =
         (if is_true (sql_gt (j_TotalSalesDollars j) (Some 0))
          then r_div rnd
                 (r_mul rnd (Some 100)
                    (r_sub rnd (r_sub rnd (j_TotalSalesDollars j) (j_TotalPurchaseDollars j)) (j_FreightCost j)))
                 (j_TotalSalesDollars j)
          else Some 0) \<rparr>"

definition rollup_select_rounded ::
  "(real \<Rightarrow> real) \<Rightarrow> int option \<times> vendor_sales_summary_row list \<Rightarrow> vendor_summary_by_vendor_row" where
  "rollup_select_rounded rnd kg =
     (case kg of (k, g) \<Rightarrow>
        \<lparr> v_VendorNumber = k,
          v_VendorName = sql_max (map VendorName g),
          v_TotalSalesDol_in_summary = r_sum rnd (map TotalSalesDollars g),
          v_TotalSalesQty = r_sum rnd (map TotalSalesQuantity g),
          v_TotalPurchaseDol = r_sum rnd (map TotalPurchaseDollars g),
          v_TotalPurchaseQty = r_sum rnd (map TotalPurchaseQuantity g),
          v_FreightCost = r_sum rnd (map FreightCost g),
          v_GrossProfit =
            r_sum rnd (map (\<lambda>r. r_sub rnd (r_sub rnd (TotalSalesDollars r) (TotalPurchaseDollars r)) (FreightCost r)) g),
          v_ProfitMargin =
            (if is_true (sql_gt (r_sum rnd (map TotalSalesDollars g)) (Some 0))
             then r_div rnd
                    (r_mul rnd (Some 100)
                       (r_sub rnd (r_sub rnd (r_sum rnd (map TotalSalesDollars g))
                                             (r_sum rnd (map TotalPurchaseDollars g)))
                                  (r_sum rnd (map FreightCost g))))
                    (r_sum rnd (map TotalSalesDollars g))
             else Some 0),
          v_BrandCount = count_distinct (map Brand g) \<rparr>)"

definition vendor_summary_by_vendor_rounded ::
  "(real \<Rightarrow> real) \<Rightarrow> vendor_sales_summary_row list \<Rightarrow> vendor_summary_by_vendor_row list" where
  "vendor_summary_by_vendor_rounded rnd vss = map (rollup_select_rounded rnd) (group_by VendorNumber vss)"

text \<open>
  The margin computed from the sum columns of a row of \<open>vendor_summary_by_vendor\<close>, and
  the margin the specification states: 100 times the sum of the \<open>GrossProfit\<close> column over
  the sum of the \<open>TotalSalesDollars\<close> column, both in the arithmetic \<open>rnd\<close>; then the first
  on exact sums over a vendor's rows.
\<close>

definition margin_of_columns :: "(real \<Rightarrow> real) \<Rightarrow> vendor_summary_by_vendor_row \<Rightarrow> num" where
  "margin_of_columns rnd v =
     (if is_true (sql_gt (v_TotalSalesDol_in_summary v) (Some 0))
      then r_div rnd
             (r_mul rnd (Some 100)
                (r_sub rnd (r_sub rnd (v_TotalSalesDol_in_summary v) (v_TotalPurchaseDol v)) (v_FreightCost v)))
             (v_TotalSalesDol_in_summary v)
      else Some 0)"

definition margin_of_gross_profit :: "(real \<Rightarrow> real) \<Rightarrow> vendor_sales_summary_row list \<Rightarrow> num" where
  "margin_of_gross_profit rnd g =
     (if is_true (sql_gt (r_sum rnd (map TotalSalesDollars g)) (Some 0))
      then r_div rnd (r_mul rnd (Some 100) (r_sum rnd (map GrossProfit g)))
             (r_sum rnd (map TotalSalesDollars g))
      else Some 0)"

definition margin_from_sums :: "vendor_sales_summary_row list \<Rightarrow> int option \<Rightarrow> real" where
  "margin_from_sums vss v =
     (let sd = sum_list (map (\<lambda>r. value_or_zero (TotalSalesDollars r)) (vendor_rows vss v));
          pd = sum_list (map (\<lambda>r. value_or_zero (TotalPurchaseDollars r)) (vendor_rows vss v));
          fc = sum_list (map (\<lambda>r. value_or_zero (FreightCost r)) (vendor_rows vss v))
      in if 0 < sd then 100 * (sd - pd - fc) / sd else 0)"

text \<open>
  A vendor with no invoice and two brands, each with one sale and one purchase of one
  unit: brand \<open>A\<close> sold for 0.1 and bought for 0.1, brand \<open>B\<close> sold for 0.1 and bought for
  0.2. The rows of \<open>joined\<close> hold these numbers as stored, the nearest binary64 numbers;
  no arithmetic result is rounded on the way to them.
\<close>

definition drift_joined :: "joined_row list" where
  "drift_joined =
     [\<lparr> j_VendorNumber = Some 1, j_VendorName = Some ''V1'', j_Brand = Some ''A'',
        j_TotalSalesQuantity = Some 1, j_TotalSalesDollars = Some (b64 (1 / 10)),
        j_TotalPurchaseQuantity = Some 1, j_TotalPurchaseDollars = Some (b64 (1 / 10)),
        j_FreightCost = Some 0 \<rparr>,
      \<lparr> j_VendorNumber = Some 1, j_VendorName = Some ''V1'', j_Brand = Some ''B'',
        j_TotalSalesQuantity = Some 1, j_TotalSalesDollars = Some (b64 (1 / 10)),
        j_TotalPurchaseQuantity = Some 1, j_TotalPurchaseDollars = Some (b64 (2 / 10)),
        j_FreightCost = Some 0 \<rparr>]"

definition drift_summary :: "vendor_sales_summary_row list" where
  "drift_summary = map (summary_select_rounded b64) drift_joined"

definition drift_rollup :: "vendor_summary_by_vendor_row list" where
  "drift_rollup = vendor_summary_by_vendor_rounded b64 drift_summary"

section \<open>Conditions, sums and groups\<close>

lemma is_true_sql_eq: "is_true (sql_eq a b) \<longleftrightarrow> (a \<noteq> None \<and> a = b)"
  by (cases a; cases b) (auto simp: is_true_def)

lemma is_true_sql_and: "is_true (sql_and a b) \<longleftrightarrow> (is_true a \<and> is_true b)"
  by (cases "(a, b)" rule: sql_and.cases) (auto simp: is_true_def)

lemma sql_and_Some: "sql_and (Some p) (Some q) = Some (p \<and> q)"
  by (cases p; cases q) simp_all

lemma is_true_sql_gt: "is_true (sql_gt a b) \<longleftrightarrow> (\<exists>x y. a = Some x \<and> b = Some y \<and> y < x)"
  by (cases a; cases b) (auto simp: is_true_def)

lemma is_true_sql_le: "is_true (sql_le a b) \<longleftrightarrow> (\<exists>x y. a = Some x \<and> b = Some y \<and> x \<le> y)"
  by (cases a; cases b) (auto simp: is_true_def)

lemma filter_remdups_eq: "filter (\<lambda>x. x = k) (remdups ks) = (if k \<in> set ks then [k] else [])"
  by (induction ks) auto

lemma filter_group_by:
  "filter (\<lambda>kg. fst kg = k) (group_by key rows) =
     (if k \<in> key ` set rows then [(k, filter (\<lambda>r. key r = k) rows)] else [])"
proof -
  have "filter (\<lambda>kg. fst kg = k) (group_by key rows) =
        map (\<lambda>k. (k, filter (\<lambda>r. key r = k) rows)) (filter (\<lambda>x. x = k) (remdups (map key rows)))"
    by (simp add: group_by_def filter_map comp_def)
  then show ?thesis by (simp add: filter_remdups_eq)
qed

lemma left_join_grouped:
  assumes on: "\<And>a kg. is_true (on a (f kg)) \<longleftrightarrow> (ok a \<and> fst kg = ka a)"
  shows "left_join as (map f (group_by key rows)) on =
         map (\<lambda>a. (a, if ok a \<and> ka a \<in> key ` set rows
                       then Some (f (ka a, filter (\<lambda>r. key r = ka a) rows)) else None)) as"
proof -
  have "filter (\<lambda>b. is_true (on a b)) (map f (group_by key rows)) =
        (if ok a \<and> ka a \<in> key ` set rows then [f (ka a, filter (\<lambda>r. key r = ka a) rows)] else [])" for a
  proof (cases "ok a")
    case True
    then show ?thesis by (simp add: filter_map comp_def on filter_group_by)
  next
    case False
    then show ?thesis by (simp add: filter_map comp_def on)
  qed
  then show ?thesis
    by (induction as) (simp_all add: left_join_def)
qed

lemma map_fst_group_by: "map fst (group_by key rows) = remdups (map key rows)"
  by (simp add: group_by_def comp_def)


lemma sum_list_non_null: "sum_list (non_null xs) = sum_list (map value_or_zero xs)"
  by (induction xs rule: non_null.induct) (simp_all add: value_or_zero_def)

lemma non_null_empty_iff: "non_null xs = [] \<longleftrightarrow> (\<forall>x \<in> set xs. x = None)"
  by (induction xs rule: non_null.induct) simp_all

lemma value_or_zero_sql_sum: "value_or_zero (sql_sum xs) = sum_list (map value_or_zero xs)"
  by (simp add: sql_sum_def value_or_zero_def sum_list_non_null[symmetric])

lemma sql_sum_None_iff: "sql_sum xs = None \<longleftrightarrow> (\<forall>x \<in> set xs. x = None)"
  by (simp add: sql_sum_def non_null_empty_iff)

lemma sql_sum_eqI:
  assumes "sum_list (map value_or_zero xs) = sum_list (map value_or_zero ys)"
    and "(\<forall>x \<in> set xs. x = None) \<longleftrightarrow> (\<forall>y \<in> set ys. y = None)"
  shows "sql_sum xs = sql_sum ys"
  using assms by (simp add: sql_sum_def non_null_empty_iff sum_list_non_null)

lemma sum_partition:
  fixes h :: "'r \<Rightarrow> real"
  assumes "finite K" "key ` set qs \<subseteq> K"
  shows "(\<Sum>k\<in>K. sum_list (map h (filter (\<lambda>r. key r = k) qs))) = sum_list (map h qs)"
  using assms(2)
proof (induction qs)
  case Nil
  then show ?case by simp
next
  case (Cons q qs)
  have "(\<Sum>k\<in>K. sum_list (map h (filter (\<lambda>r. key r = k) (q # qs)))) =
        (\<Sum>k\<in>K. (if k = key q then h q else 0) + sum_list (map h (filter (\<lambda>r. key r = k) qs)))"
    by (rule sum.cong) auto
  also have "\<dots> = (\<Sum>k\<in>K. if k = key q then h q else 0) + (\<Sum>k\<in>K. sum_list (map h (filter (\<lambda>r. key r = k) qs)))"
    by (simp add: sum.distrib)
  also have "(\<Sum>k\<in>K. if k = key q then h q else 0) = h q"
    using assms(1) Cons.prems by (simp add: sum.delta')
  finally show ?case using Cons by simp
qed

lemma sql_sum_regroup:
  "sql_sum (map (\<lambda>kg. sql_sum (map d (snd kg))) (group_by key qs)) = sql_sum (map d qs)"
proof (rule sql_sum_eqI)
  have "sum_list (map value_or_zero (map (\<lambda>kg. sql_sum (map d (snd kg))) (group_by key qs))) =
        sum_list (map (\<lambda>k. sum_list (map (value_or_zero \<circ> d) (filter (\<lambda>r. key r = k) qs))) (remdups (map key qs)))"
    by (simp add: group_by_def comp_def value_or_zero_sql_sum)
  also have "\<dots> = (\<Sum>k\<in>set (map key qs). sum_list (map (value_or_zero \<circ> d) (filter (\<lambda>r. key r = k) qs)))"
    by (simp add: sum_list_distinct_conv_sum_set)
  also have "\<dots> = sum_list (map (value_or_zero \<circ> d) qs)"
    by (rule sum_partition) simp_all
  finally show "sum_list (map value_or_zero (map (\<lambda>kg. sql_sum (map d (snd kg))) (group_by key qs))) =
        sum_list (map value_or_zero (map d qs))" by (simp add: comp_def)
next
  show "(\<forall>x\<in>set (map (\<lambda>kg. sql_sum (map d (snd kg))) (group_by key qs)). x = None) =
        (\<forall>y\<in>set (map d qs). y = None)"
    by (auto simp: group_by_def sql_sum_None_iff)
qed

lemma group_by_filter_key:
  "filter (\<lambda>kg. Q (fst kg)) (group_by key rows) = group_by key (filter (\<lambda>r. Q (key r)) rows)"
proof -
  have a: "filter Q (remdups (map key rows)) = remdups (map key (filter (\<lambda>r. Q (key r)) rows))"
    by (simp add: remdups_filter[symmetric] filter_map comp_def)
  have b: "Q k \<Longrightarrow> filter (\<lambda>r. key r = k) rows = filter (\<lambda>r. key r = k) (filter (\<lambda>r. Q (key r)) rows)" for k
    by (auto intro: filter_cong)
  have "filter (\<lambda>kg. Q (fst kg)) (group_by key rows) =
        map (\<lambda>k. (k, filter (\<lambda>r. key r = k) rows)) (filter Q (remdups (map key rows)))"
    by (simp add: group_by_def filter_map comp_def)
  also have "\<dots> = map (\<lambda>k. (k, filter (\<lambda>r. key r = k) (filter (\<lambda>r. Q (key r)) rows))) (filter Q (remdups (map key rows)))"
    by (rule map_cong) (auto simp: b simp del: filter_filter)
  finally show ?thesis by (simp add: a group_by_def)
qed

lemma coalesce_zero: "coalesce x 0 = Some (value_or_zero x)"
  by (cases x) (simp_all add: value_or_zero_def)


lemma brand_purch_alt:
  "brand_purch ps =
     map (\<lambda>kg. \<lparr> bp_VendorNumber = fst (fst kg), bp_Brand = snd (fst kg),
          bp_BrandPurchaseQuantity = sql_sum (map p_Quantity (snd kg)),
          bp_BrandPurchaseDollars = sql_sum (map (\<lambda>p. sql_mul (p_PurchasePrice p) (p_Quantity p)) (snd kg)) \<rparr>)
       (group_by (\<lambda>p. (p_VendorNumber p, p_Brand p)) ps)"
  by (simp add: brand_purch_def case_prod_unfold)

lemma bp_vendor_tot_alt:
  "bp_vendor_tot bp = map (\<lambda>kg. \<lparr> t_VendorNumber = fst kg,
          t_VendorBrandPurchDollars = sql_sum (map bp_BrandPurchaseDollars (snd kg)) \<rparr>) (group_by bp_VendorNumber bp)"
  by (simp add: bp_vendor_tot_def case_prod_unfold)

lemma vi_alt:
  "vi vis = map (\<lambda>kg. \<lparr> via_VendorNumber = fst kg,
          via_InvoicePurchaseQuantity = sql_sum (map vi_Quantity (snd kg)),
          via_InvoicePurchaseDollars = sql_sum (map vi_Dollars (snd kg)),
          via_Freight = sql_sum (map vi_Freight (snd kg)) \<rparr>) (group_by vi_VendorNumber vis)"
  by (simp add: vi_def case_prod_unfold)

lemma sql_sum_Nil: "sql_sum [] = None"
  by (simp add: sql_sum_def)

lemma sql_filter1:
  "filter (\<lambda>r. is_true (sql_eq (k r) v)) rows = (if v \<noteq> None then filter (\<lambda>r. k r = v) rows else [])"
proof (cases v)
  case None
  then show ?thesis by (simp add: is_true_def)
next
  case (Some x)
  have "filter (\<lambda>r. is_true (sql_eq (k r) (Some x))) rows = filter (\<lambda>r. k r = Some x) rows"
    by (rule filter_cong) (auto simp: is_true_sql_eq)
  with Some show ?thesis by simp
qed

lemma sql_filter2:
  "filter (\<lambda>r. is_true (sql_and (sql_eq (k r) v) (sql_eq (k' r) b))) rows =
     (if v \<noteq> None \<and> b \<noteq> None then filter (\<lambda>r. (k r, k' r) = (v, b)) rows else [])"
proof (cases "v \<noteq> None \<and> b \<noteq> None")
  case True
  then obtain x y where "v = Some x" "b = Some y" by auto
  then have "filter (\<lambda>r. is_true (sql_and (sql_eq (k r) v) (sql_eq (k' r) b))) rows =
        filter (\<lambda>r. (k r, k' r) = (v, b)) rows"
    by (intro filter_cong) (auto simp: is_true_sql_eq is_true_sql_and)
  with True show ?thesis by simp
next
  case False
  then show ?thesis by (auto simp: is_true_sql_eq is_true_sql_and filter_empty_conv)
qed

lemma filter_empty_not_in_image: "k \<notin> key ` set rows \<Longrightarrow> filter (\<lambda>r. key r = k) rows = []"
  by (auto simp: filter_empty_conv)

lemma filter_empty_not_in_image2:
  "(v, b) \<notin> (\<lambda>r. (k r, k' r)) ` set rows \<Longrightarrow> filter (\<lambda>r. k r = v \<and> k' r = b) rows = []"
  by (auto simp: filter_empty_conv)

section \<open>The rows of vendor_sales_summary\<close>

lemma vendor_total_regroup:
  "sql_sum (map bp_BrandPurchaseDollars (filter (\<lambda>r. bp_VendorNumber r = v) (brand_purch ps))) =
   sql_sum (map (\<lambda>p. sql_mul (p_PurchasePrice p) (p_Quantity p)) (filter (\<lambda>p. p_VendorNumber p = v) ps))"
proof -
  let ?f = "\<lambda>kg. \<lparr> bp_VendorNumber = fst (fst kg), bp_Brand = snd (fst kg),
          bp_BrandPurchaseQuantity = sql_sum (map p_Quantity (snd kg)),
          bp_BrandPurchaseDollars = sql_sum (map (\<lambda>p. sql_mul (p_PurchasePrice p) (p_Quantity p)) (snd kg)) \<rparr>"
  let ?key = "\<lambda>p. (p_VendorNumber p, p_Brand p)"
  have bp: "brand_purch qs = map ?f (group_by ?key qs)" for qs
    by (simp add: brand_purch_def case_prod_unfold)
  have "filter (\<lambda>r. bp_VendorNumber r = v) (brand_purch ps) =
        map ?f (filter (\<lambda>kg. fst (fst kg) = v) (group_by ?key ps))"
    by (simp add: bp filter_map comp_def)
  also have "\<dots> = brand_purch (filter (\<lambda>p. p_VendorNumber p = v) ps)"
    using group_by_filter_key[of "\<lambda>k. fst k = v" ?key ps] by (simp add: bp)
  finally have "filter (\<lambda>r. bp_VendorNumber r = v) (brand_purch ps) = brand_purch (filter (\<lambda>p. p_VendorNumber p = v) ps)" .
  moreover have "sql_sum (map bp_BrandPurchaseDollars (brand_purch qs)) =
        sql_sum (map (\<lambda>p. sql_mul (p_PurchasePrice p) (p_Quantity p)) qs)" for qs
    using sql_sum_regroup[of "\<lambda>p. sql_mul (p_PurchasePrice p) (p_Quantity p)" ?key qs]
    by (simp add: bp comp_def)
  ultimately show ?thesis by simp
qed


lemma joined_rows:
  "joined sa (brand_purch ps) (bp_vendor_tot (brand_purch ps)) (vi vis) =
   map (\<lambda>s. \<lparr> j_VendorNumber = sa_VendorNumber s,
          j_VendorName = sa_VendorName s,
          j_Brand = sa_Brand s,
          j_TotalSalesQuantity = Some (value_or_zero (sa_TotalSalesQuantity s)),
          j_TotalSalesDollars = Some (value_or_zero (sa_TotalSalesDollars s)),
          j_TotalPurchaseQuantity = Some (value_or_zero (brand_purchase_quantity ps (sa_VendorNumber s) (sa_Brand s))),
          j_TotalPurchaseDollars = Some (value_or_zero (brand_purchase_dollars ps (sa_VendorNumber s) (sa_Brand s))),
          j_FreightCost = Some (freight_share ps vis (sa_VendorNumber s) (sa_Brand s)) \<rparr>) sa"
proof -
  let ?key = "\<lambda>p. (p_VendorNumber p, p_Brand p)"
  let ?brow = "\<lambda>kg. \<lparr> bp_VendorNumber = fst (fst kg), bp_Brand = snd (fst kg),
          bp_BrandPurchaseQuantity = sql_sum (map p_Quantity (snd kg)),
          bp_BrandPurchaseDollars = sql_sum (map (\<lambda>p. sql_mul (p_PurchasePrice p) (p_Quantity p)) (snd kg)) \<rparr>"
  define B where "B = (\<lambda>s :: sales_agg_row. if (sa_VendorNumber s \<noteq> None \<and> sa_Brand s \<noteq> None)
        \<and> (sa_VendorNumber s, sa_Brand s) \<in> ?key ` set ps
      then Some (?brow ((sa_VendorNumber s, sa_Brand s), filter (\<lambda>r. ?key r = (sa_VendorNumber s, sa_Brand s)) ps))
      else None)"
  let ?trow = "\<lambda>kg. \<lparr> t_VendorNumber = fst kg,
          t_VendorBrandPurchDollars = sql_sum (map bp_BrandPurchaseDollars (snd kg)) \<rparr>"
  let ?vrow = "\<lambda>kg. \<lparr> via_VendorNumber = fst kg,
          via_InvoicePurchaseQuantity = sql_sum (map vi_Quantity (snd kg)),
          via_InvoicePurchaseDollars = sql_sum (map vi_Dollars (snd kg)),
          via_Freight = sql_sum (map vi_Freight (snd kg)) \<rparr>"
  define T where "T = (\<lambda>x :: sales_agg_row \<times> brand_purch_row option.
      if sa_VendorNumber (fst x) \<noteq> None \<and> sa_VendorNumber (fst x) \<in> bp_VendorNumber ` set (brand_purch ps)
      then Some (?trow (sa_VendorNumber (fst x),
                        filter (\<lambda>r. bp_VendorNumber r = sa_VendorNumber (fst x)) (brand_purch ps)))
      else None)"
  define V where "V = (\<lambda>x :: (sales_agg_row \<times> brand_purch_row option) \<times> bp_vendor_tot_row option.
      if sa_VendorNumber (fst (fst x)) \<noteq> None \<and> sa_VendorNumber (fst (fst x)) \<in> vi_VendorNumber ` set vis
      then Some (?vrow (sa_VendorNumber (fst (fst x)),
                        filter (\<lambda>r. vi_VendorNumber r = sa_VendorNumber (fst (fst x))) vis))
      else None)"
  have j1: "left_join sa (brand_purch ps)
              (\<lambda>s b. sql_and (sql_eq (bp_VendorNumber b) (sa_VendorNumber s)) (sql_eq (bp_Brand b) (sa_Brand s)))
            = map (\<lambda>s. (s, B s)) sa"
    unfolding brand_purch_alt B_def
    by (rule left_join_grouped) (auto simp: is_true_sql_and is_true_sql_eq prod_eq_iff dest: sym)
  have j2: "left_join xs (bp_vendor_tot (brand_purch ps))
              (\<lambda>x r. sql_eq (t_VendorNumber r) (sa_VendorNumber (fst x)))
            = map (\<lambda>x. (x, T x)) xs" for xs
    unfolding bp_vendor_tot_alt T_def
    by (rule left_join_grouped) (auto simp: is_true_sql_eq dest: sym)
  have j3: "left_join xs (vi vis)
              (\<lambda>x r. sql_eq (via_VendorNumber r) (sa_VendorNumber (fst (fst x))))
            = map (\<lambda>x. (x, V x)) xs" for xs
    unfolding vi_alt V_def
    by (rule left_join_grouped) (auto simp: is_true_sql_eq dest: sym)
  have cB: "col bp_BrandPurchaseDollars (B s) = brand_purchase_dollars ps (sa_VendorNumber s) (sa_Brand s)"
    and cQ: "col bp_BrandPurchaseQuantity (B s) = brand_purchase_quantity ps (sa_VendorNumber s) (sa_Brand s)" for s
    by (simp_all add: B_def brand_purchase_dollars_def brand_purchase_quantity_def sql_filter2
        sql_sum_Nil filter_empty_not_in_image2)
  have cT: "col t_VendorBrandPurchDollars (T x) = vendor_purchase_dollars ps (sa_VendorNumber (fst x))" for x
    by (simp add: T_def vendor_purchase_dollars_def sql_filter1 vendor_total_regroup[symmetric]
        sql_sum_Nil filter_empty_not_in_image)
  have cV: "col via_Freight (V x) = vendor_freight vis (sa_VendorNumber (fst (fst x)))" for x
    by (simp add: V_def vendor_freight_def sql_filter1 sql_sum_Nil filter_empty_not_in_image)
  have fc: "(if is_true (sql_and (sql_gt (coalesce F 0) (Some 0)) (sql_gt (coalesce Tt 0) (Some 0)))
             then sql_div (sql_mul (sql_mul F (coalesce D 0)) (Some 1)) Tt
             else Some 0) =
            Some (case (F, Tt) of (Some f, Some t) \<Rightarrow> if 0 < f \<and> 0 < t then f * value_or_zero D / t else 0 | _ \<Rightarrow> 0)"
    for F Tt D :: num
    by (cases F; cases Tt; cases D) (auto simp: is_true_def sql_and_Some value_or_zero_def)
  show ?thesis
    unfolding joined_def j1 j2 j3
    apply (simp only: joined_select_def map_map comp_def fst_conv snd_conv prod.case cB cQ cT cV fc)
    apply (simp add: coalesce_zero freight_share_def)
    done
qed


lemma vendor_sales_summary_rows:
  "vendor_sales_summary_query ss ps vis = map (summary_row ps vis) (sales_agg ss ps)"
  by (simp add: vendor_sales_summary_query_def joined_rows summary_select_def summary_row_def
      Let_def is_true_def)

lemma ex_summary:
  "vendor_sales_summary_query ex_sales ex_purchases ex_vendor_invoice =
     [\<lparr> VendorNumber = Some 1, VendorName = Some ''V1'', Brand = Some ''A'',
        TotalSalesQuantity = Some 10, TotalSalesDollars = Some 500,
        TotalPurchaseQuantity = Some 30, TotalPurchaseDollars = Some 300,
        FreightCost = Some 30, GrossProfit = Some 170, ProfitMargin = Some 34 \<rparr>,
      \<lparr> VendorNumber = Some 1, VendorName = Some ''V1'', Brand = Some ''B'',
        TotalSalesQuantity = Some 5, TotalSalesDollars = Some 1000,
        TotalPurchaseQuantity = Some 70, TotalPurchaseDollars = Some 700,
        FreightCost = Some 70, GrossProfit = Some 230, ProfitMargin = Some 23 \<rparr>]"
  by code_simp

section \<open>Claims about vendor_sales_summary\<close>

text \<open>
  C5. In every row of \<open>vendor_sales_summary\<close> the three dollar columns are numbers,
  \<open>GrossProfit\<close> is exactly \<open>TotalSalesDollars - TotalPurchaseDollars - FreightCost\<close>, and
  \<open>ProfitMargin\<close> is \<open>100 * GrossProfit / TotalSalesDollars\<close> when the sales dollars are
  positive and 0 otherwise.
\<close>

theorem gross_profit_and_margin:
  "\<forall>r \<in> set (vendor_sales_summary_query ss ps vis).
     \<exists>sd pd fc gp.
       TotalSalesDollars r = Some sd \<and> TotalPurchaseDollars r = Some pd \<and>
       FreightCost r = Some fc \<and> GrossProfit r = Some gp \<and> gp = sd - pd - fc \<and>
       ProfitMargin r = Some (if 0 < sd then 100 * gp / sd else 0)"
  by (auto simp: vendor_sales_summary_rows summary_row_def Let_def)

theorem gross_profit_and_margin_witness:
  "hd (vendor_sales_summary_query ex_sales ex_purchases ex_vendor_invoice)
     \<in> set (vendor_sales_summary_query ex_sales ex_purchases ex_vendor_invoice) \<and>
   (\<exists>sd pd fc gp.
       TotalSalesDollars (hd (vendor_sales_summary_query ex_sales ex_purchases ex_vendor_invoice)) = Some sd \<and>
       TotalPurchaseDollars (hd (vendor_sales_summary_query ex_sales ex_purchases ex_vendor_invoice)) = Some pd \<and>
       FreightCost (hd (vendor_sales_summary_query ex_sales ex_purchases ex_vendor_invoice)) = Some fc \<and>
       GrossProfit (hd (vendor_sales_summary_query ex_sales ex_purchases ex_vendor_invoice)) = Some gp \<and>
       gp = sd - pd - fc \<and>
       ProfitMargin (hd (vendor_sales_summary_query ex_sales ex_purchases ex_vendor_invoice)) =
         Some (if 0 < sd then 100 * gp / sd else 0)) \<and>
   GrossProfit (hd (vendor_sales_summary_query ex_sales ex_purchases ex_vendor_invoice)) = Some 170 \<and>
   ProfitMargin (hd (vendor_sales_summary_query ex_sales ex_purchases ex_vendor_invoice)) = Some 34"
proof (intro conjI)
  show mem: "hd (vendor_sales_summary_query ex_sales ex_purchases ex_vendor_invoice)
      \<in> set (vendor_sales_summary_query ex_sales ex_purchases ex_vendor_invoice)"
    by (simp add: ex_summary)
  with gross_profit_and_margin [of ex_sales ex_purchases ex_vendor_invoice]
  show "\<exists>sd pd fc gp.
       TotalSalesDollars (hd (vendor_sales_summary_query ex_sales ex_purchases ex_vendor_invoice)) = Some sd \<and>
       TotalPurchaseDollars (hd (vendor_sales_summary_query ex_sales ex_purchases ex_vendor_invoice)) = Some pd \<and>
       FreightCost (hd (vendor_sales_summary_query ex_sales ex_purchases ex_vendor_invoice)) = Some fc \<and>
       GrossProfit (hd (vendor_sales_summary_query ex_sales ex_purchases ex_vendor_invoice)) = Some gp \<and>
       gp = sd - pd - fc \<and>
       ProfitMargin (hd (vendor_sales_summary_query ex_sales ex_purchases ex_vendor_invoice)) =
         Some (if 0 < sd then 100 * gp / sd else 0)"
    by blast
  show "GrossProfit (hd (vendor_sales_summary_query ex_sales ex_purchases ex_vendor_invoice)) = Some 170"
    by (simp add: ex_summary)
  show "ProfitMargin (hd (vendor_sales_summary_query ex_sales ex_purchases ex_vendor_invoice)) = Some 34"
    by (simp add: ex_summary)
qed

text \<open>
  C3. In every row of \<open>vendor_sales_summary\<close>, \<open>FreightCost\<close> is the vendor's total invoice
  freight times the brand's purchase dollars over the vendor's total purchase dollars
  when the freight and the total are both strictly positive, and 0 otherwise
  (\<open>freight_share\<close>). In the example, the vendor has freight 100 and brands with purchase
  dollars 300 and 700, and the two rows get 30 and 70.
\<close>

theorem freight_cost_allocation:
  "(\<forall>r \<in> set (vendor_sales_summary_query ss ps vis).
      FreightCost r = Some (freight_share ps vis (VendorNumber r) (Brand r))) \<and>
   vendor_freight ex_vendor_invoice (Some 1) = Some 100 \<and>
   brand_purchase_dollars ex_purchases (Some 1) (Some ''A'') = Some 300 \<and>
   brand_purchase_dollars ex_purchases (Some 1) (Some ''B'') = Some 700 \<and>
   map Brand (vendor_sales_summary_query ex_sales ex_purchases ex_vendor_invoice) = [Some ''A'', Some ''B''] \<and>
   map FreightCost (vendor_sales_summary_query ex_sales ex_purchases ex_vendor_invoice) = [Some 30, Some 70]"
proof -
  have "\<forall>r \<in> set (vendor_sales_summary_query ss ps vis).
      FreightCost r = Some (freight_share ps vis (VendorNumber r) (Brand r))"
    by (auto simp: vendor_sales_summary_rows summary_row_def Let_def)
  moreover have "vendor_freight ex_vendor_invoice (Some 1) = Some 100"
    by code_simp
  moreover have "brand_purchase_dollars ex_purchases (Some 1) (Some ''A'') = Some 300"
    by code_simp
  moreover have "brand_purchase_dollars ex_purchases (Some 1) (Some ''B'') = Some 700"
    by code_simp
  ultimately show ?thesis by (simp add: ex_summary)
qed

theorem freight_cost_allocation_witness:
  "hd (vendor_sales_summary_query ex_sales ex_purchases ex_vendor_invoice)
     \<in> set (vendor_sales_summary_query ex_sales ex_purchases ex_vendor_invoice) \<and>
   FreightCost (hd (vendor_sales_summary_query ex_sales ex_purchases ex_vendor_invoice)) =
     Some (freight_share ex_purchases ex_vendor_invoice (Some 1) (Some ''A'')) \<and>
   freight_share ex_purchases ex_vendor_invoice (Some 1) (Some ''A'') = 100 * 300 / 1000"
proof -
  have mem: "hd (vendor_sales_summary_query ex_sales ex_purchases ex_vendor_invoice)
      \<in> set (vendor_sales_summary_query ex_sales ex_purchases ex_vendor_invoice)"
    by (simp add: ex_summary)
  from freight_cost_allocation [of ex_sales ex_purchases ex_vendor_invoice] mem
  have "FreightCost (hd (vendor_sales_summary_query ex_sales ex_purchases ex_vendor_invoice)) =
     Some (freight_share ex_purchases ex_vendor_invoice
        (VendorNumber (hd (vendor_sales_summary_query ex_sales ex_purchases ex_vendor_invoice)))
        (Brand (hd (vendor_sales_summary_query ex_sales ex_purchases ex_vendor_invoice))))"
    by blast
  then show ?thesis using mem by (simp add: ex_summary)
qed

section \<open>The key of vendor_sales_summary\<close>

lemma sales_agg_keys:
  "map (\<lambda>s. (sa_VendorNumber s, sa_VendorName s, sa_Brand s)) (sales_agg ss ps) =
   remdups (map sales_agg_key (sales_purchases ss ps))"
  by (simp add: sales_agg_def group_by_def comp_def)

lemma summary_keys:
  "map vendor_name_brand (vendor_sales_summary_query ss ps vis) =
   remdups (map sales_agg_key (sales_purchases ss ps))"
  by (simp add: vendor_sales_summary_rows comp_def vendor_name_brand_def summary_row_def Let_def
      sales_agg_keys)

lemma summary_vendor_brands:
  "map vendor_brand (vendor_sales_summary_query ss ps vis) =
   map (\<lambda>k. (fst k, snd (snd k))) (remdups (map sales_agg_key (sales_purchases ss ps)))"
proof -
  have "map vendor_brand (vendor_sales_summary_query ss ps vis) =
        map (\<lambda>k :: int option \<times> string option \<times> string option. (fst k, snd (snd k)))
          (map vendor_name_brand (vendor_sales_summary_query ss ps vis))"
    by (simp add: vendor_brand_def vendor_name_brand_def)
  then show ?thesis by (simp only: summary_keys)
qed

lemma summary_vendor_brand_set:
  "set (map vendor_brand (vendor_sales_summary_query ss ps vis)) =
   join_vendor_brand ` set (sales_purchases ss ps)"
proof -
  have "(\<lambda>x. (fst (sales_agg_key x), snd (snd (sales_agg_key x)))) = join_vendor_brand"
    by (rule ext) (simp add: sales_agg_key_def join_vendor_brand_def)
  then show ?thesis
    by (simp only: summary_vendor_brands set_map set_remdups image_image)
qed

lemma single_name_inj:
  assumes single: "single_vendor_name (sales_purchases ss ps)"
  shows "inj_on (\<lambda>k :: int option \<times> string option \<times> string option. (fst k, snd (snd k)))
           (set (remdups (map sales_agg_key (sales_purchases ss ps))))"
proof (rule inj_onI)
  fix k k' :: "int option \<times> string option \<times> string option"
  assume k: "k \<in> set (remdups (map sales_agg_key (sales_purchases ss ps)))"
    and k': "k' \<in> set (remdups (map sales_agg_key (sales_purchases ss ps)))"
    and eq: "(fst k, snd (snd k)) = (fst k', snd (snd k'))"
  from k obtain x where x: "x \<in> set (sales_purchases ss ps)" "k = sales_agg_key x" by auto
  from k' obtain y where y: "y \<in> set (sales_purchases ss ps)" "k' = sales_agg_key y" by auto
  from eq x y have "p_VendorNumber (snd x) = p_VendorNumber (snd y)" "s_Brand (fst x) = s_Brand (fst y)"
    by (simp_all add: sales_agg_key_def)
  moreover from this single x y have "p_VendorName (snd x) = p_VendorName (snd y)"
    unfolding single_vendor_name_def by blast
  ultimately show "k = k'" using x y by (simp add: sales_agg_key_def)
qed

text \<open>
  C2, as the specification states it, fails: the script groups by
  \<open>(VendorNumber, VendorName, Brand)\<close>, so a vendor number that carries two names gets two
  rows for the same (VendorNumber, Brand).
\<close>

theorem summary_key_not_unique:
  "map vendor_brand (vendor_sales_summary_query renamed_sales renamed_purchases []) =
     [(Some 1, Some ''A''), (Some 1, Some ''A'')] \<and>
   map join_vendor_brand (sales_purchases renamed_sales renamed_purchases) =
     [(Some 1, Some ''A''), (Some 1, Some ''A'')] \<and>
   \<not> distinct (map vendor_brand (vendor_sales_summary_query renamed_sales renamed_purchases []))"
  by code_simp

text \<open>
  C2, amended. \<open>vendor_sales_summary\<close> has exactly one row for each
  \<open>(VendorNumber, VendorName, Brand)\<close> triple of the join of sales and purchases (the brand
  being the sale's) and no other row. When every vendor number of the join carries a
  single vendor name, it has exactly one row for each (VendorNumber, Brand) pair of the
  join and no other row.
\<close>

theorem summary_one_row_per_group:
  "distinct (map vendor_name_brand (vendor_sales_summary_query ss ps vis)) \<and>
   set (map vendor_name_brand (vendor_sales_summary_query ss ps vis)) =
     sales_agg_key ` set (sales_purchases ss ps) \<and>
   (single_vendor_name (sales_purchases ss ps) \<longrightarrow>
      distinct (map vendor_brand (vendor_sales_summary_query ss ps vis)) \<and>
      set (map vendor_brand (vendor_sales_summary_query ss ps vis)) =
        join_vendor_brand ` set (sales_purchases ss ps))"
proof (intro conjI impI)
  show "distinct (map vendor_name_brand (vendor_sales_summary_query ss ps vis))"
    by (simp add: summary_keys)
  show "set (map vendor_name_brand (vendor_sales_summary_query ss ps vis)) =
     sales_agg_key ` set (sales_purchases ss ps)"
    by (simp only: summary_keys set_remdups set_map)
  show "set (map vendor_brand (vendor_sales_summary_query ss ps vis)) =
        join_vendor_brand ` set (sales_purchases ss ps)"
    by (rule summary_vendor_brand_set)
  assume "single_vendor_name (sales_purchases ss ps)"
  then show "distinct (map vendor_brand (vendor_sales_summary_query ss ps vis))"
    by (simp only: summary_vendor_brands distinct_map distinct_remdups single_name_inj simp_thms)
qed

theorem summary_one_row_per_group_witness:
  "single_vendor_name (sales_purchases ex_sales ex_purchases) \<and>
   distinct (map vendor_brand (vendor_sales_summary_query ex_sales ex_purchases ex_vendor_invoice)) \<and>
   set (map vendor_brand (vendor_sales_summary_query ex_sales ex_purchases ex_vendor_invoice)) =
     join_vendor_brand ` set (sales_purchases ex_sales ex_purchases)"
proof -
  have single: "single_vendor_name (sales_purchases ex_sales ex_purchases)"
    by code_simp
  with summary_one_row_per_group [of ex_sales ex_purchases ex_vendor_invoice]
  show ?thesis by blast
qed

section \<open>The freight allocated to a vendor\<close>








section \<open>Claims about vendor_summary_by_vendor\<close>

lemma non_null_set: "set (non_null xs) = {x. Some x \<in> set xs}"
  by (induction xs rule: non_null.induct) auto

lemma sql_max_Max:
  fixes xs :: "('a::linorder) option list"
  assumes "xs \<noteq> []"
  shows "sql_max xs = Max (set xs)"
proof (cases "non_null xs")
  case Nil
  then have "set xs = {None}"
    using assms by (cases xs) (auto simp: non_null_empty_iff)
  with Nil show ?thesis by (simp add: sql_max_def)
next
  case (Cons y ys)
  have m: "fold max ys y = Max (set (non_null xs))"
    by (simp only: Cons Max.set_eq_fold)
  have "Max (set (non_null xs)) \<in> set (non_null xs)"
    by (rule Max_in) (simp_all add: Cons)
  then have mem: "Some (Max (set (non_null xs))) \<in> set xs"
    by (simp add: non_null_set)
  have "x \<le> Some (Max (set (non_null xs)))" if "x \<in> set xs" for x
  proof (cases x)
    case None
    then show ?thesis by simp
  next
    case (Some a)
    with that have "a \<in> set (non_null xs)" by (simp add: non_null_set)
    then have "a \<le> Max (set (non_null xs))" by simp
    with Some show ?thesis by simp
  qed
  then have "Max (set xs) = Some (Max (set (non_null xs)))"
    using mem by (intro Max_eqI) simp_all
  with m Cons show ?thesis by (simp add: sql_max_def)
qed

lemma group_by_member:
  "kg \<in> set (group_by key rows) \<Longrightarrow> snd kg = filter (\<lambda>r. key r = fst kg) rows \<and> snd kg \<noteq> []"
  by (auto simp: group_by_def filter_empty_conv)

lemma summary_row_shape:
  assumes "r \<in> set (vendor_sales_summary_query ss ps vis)"
  shows "\<exists>sq sd pd fc.
           TotalSalesQuantity r = Some sq \<and> TotalSalesDollars r = Some sd \<and>
           TotalPurchaseDollars r = Some pd \<and> FreightCost r = Some fc \<and>
           GrossProfit r = Some (sd - pd - fc) \<and>
           ProfitMargin r = Some (if 0 < sd then 100 * (sd - pd - fc) / sd else 0)"
  using assms by (auto simp: vendor_sales_summary_rows summary_row_def Let_def)

lemma sql_sum_Some:
  assumes "g \<noteq> []" "\<And>r. r \<in> set g \<Longrightarrow> f r \<noteq> None"
  shows "sql_sum (map f g) = Some (sum_list (map (\<lambda>r. value_or_zero (f r)) g))"
proof -
  from assms obtain r where "r \<in> set g" "f r \<noteq> None" by (cases g) auto
  then have "sql_sum (map f g) \<noteq> None" by (auto simp: sql_sum_None_iff)
  moreover have "value_or_zero (sql_sum (map f g)) = sum_list (map (\<lambda>r. value_or_zero (f r)) g)"
    by (simp add: value_or_zero_sql_sum comp_def)
  ultimately show ?thesis by (auto simp: value_or_zero_def)
qed

lemma sum_list_gross_profit:
  assumes "\<And>r. r \<in> set g \<Longrightarrow>
    value_or_zero (GrossProfit r) =
      value_or_zero (TotalSalesDollars r) - value_or_zero (TotalPurchaseDollars r) - value_or_zero (FreightCost r)"
  shows "sum_list (map (\<lambda>r. value_or_zero (GrossProfit r)) g) =
         sum_list (map (\<lambda>r. value_or_zero (TotalSalesDollars r)) g)
         - sum_list (map (\<lambda>r. value_or_zero (TotalPurchaseDollars r)) g)
         - sum_list (map (\<lambda>r. value_or_zero (FreightCost r)) g)"
  using assms by (induction g) simp_all

text \<open>
  C10. In every row of \<open>vendor_summary_by_vendor\<close>, \<open>VendorName\<close> is the greatest of the
  \<open>VendorName\<close> values of the vendor's rows of \<open>vendor_sales_summary\<close>, in the order of SQL
  values: \<open>NULL\<close> below every text, texts compared byte by byte.
\<close>

theorem rollup_vendor_name:
  "\<forall>v \<in> set (vendor_summary_by_vendor_query vss).
     v_VendorName v = Max (set (map VendorName (vendor_rows vss (v_VendorNumber v))))"
proof
  fix v assume "v \<in> set (vendor_summary_by_vendor_query vss)"
  then obtain kg where kg: "kg \<in> set (group_by VendorNumber vss)" and v: "v = rollup_select kg"
    by (auto simp: vendor_summary_by_vendor_query_def)
  from group_by_member[OF kg] have g: "snd kg = vendor_rows vss (fst kg)" "snd kg \<noteq> []"
    unfolding vendor_rows_def by blast+
  have "v_VendorName v = sql_max (map VendorName (snd kg))" "v_VendorNumber v = fst kg"
    by (simp_all add: v rollup_select_def case_prod_unfold)
  with g show "v_VendorName v = Max (set (map VendorName (vendor_rows vss (v_VendorNumber v))))"
    by (simp add: sql_max_Max)
qed


theorem rollup_vendor_name_witness:
  "hd (vendor_summary_by_vendor_query (vendor_sales_summary_query renamed_sales renamed_purchases []))
     \<in> set (vendor_summary_by_vendor_query (vendor_sales_summary_query renamed_sales renamed_purchases [])) \<and>
   map VendorName (vendor_rows (vendor_sales_summary_query renamed_sales renamed_purchases []) (Some 1)) =
     [Some ''ACME'', Some ''ACME INC''] \<and>
   v_VendorName (hd (vendor_summary_by_vendor_query (vendor_sales_summary_query renamed_sales renamed_purchases []))) =
     Some ''ACME INC''"
proof -
  let ?X = "vendor_sales_summary_query renamed_sales renamed_purchases []"
  have mem: "hd (vendor_summary_by_vendor_query ?X) \<in> set (vendor_summary_by_vendor_query ?X)"
    by code_simp
  have num: "v_VendorNumber (hd (vendor_summary_by_vendor_query ?X)) = Some 1"
    by code_simp
  have names: "map VendorName (vendor_rows ?X (Some 1)) = [Some ''ACME'', Some ''ACME INC'']"
    by code_simp
  have mx: "Max (set [Some ''ACME'', Some ''ACME INC'']) = Some ''ACME INC''"
    by code_simp
  from rollup_vendor_name [of ?X] mem
  have "v_VendorName (hd (vendor_summary_by_vendor_query ?X)) =
        Max (set (map VendorName (vendor_rows ?X (v_VendorNumber (hd (vendor_summary_by_vendor_query ?X))))))"
    by blast
  then have "v_VendorName (hd (vendor_summary_by_vendor_query ?X)) = Some ''ACME INC''"
    by (simp only: num names mx)
  with mem names show ?thesis by simp
qed

lemma b64_tenth: "b64 (1 / 10) = 3602879701896397 / 36028797018963968"
  by code_simp

lemma b64_fifth: "b64 (2 / 10) = 3602879701896397 / 18014398509481984"
  by code_simp

lemma drift_summary_rows:
  "drift_summary =
     [\<lparr> VendorNumber = Some 1, VendorName = Some ''V1'', Brand = Some ''A'',
        TotalSalesQuantity = Some 1, TotalSalesDollars = Some (3602879701896397 / 36028797018963968),
        TotalPurchaseQuantity = Some 1, TotalPurchaseDollars = Some (3602879701896397 / 36028797018963968),
        FreightCost = Some 0, GrossProfit = Some 0, ProfitMargin = Some 0 \<rparr>,
      \<lparr> VendorNumber = Some 1, VendorName = Some ''V1'', Brand = Some ''B'',
        TotalSalesQuantity = Some 1, TotalSalesDollars = Some (3602879701896397 / 36028797018963968),
        TotalPurchaseQuantity = Some 1, TotalPurchaseDollars = Some (3602879701896397 / 18014398509481984),
        FreightCost = Some 0, GrossProfit = Some (- (3602879701896397 / 36028797018963968)),
        ProfitMargin = Some (- 100) \<rparr>]"
  unfolding drift_summary_def drift_joined_def b64_tenth b64_fifth
  by code_simp

lemma foldl_add: "foldl (\<lambda>a x. a + x) (y::real) ys = y + sum_list ys"
  by (induction ys arbitrary: y) (simp_all add: add.assoc)

lemma r_ops_exact:
  "r_add id = sql_add" "r_sub id = sql_sub" "r_mul id = sql_mul" "r_div id = sql_div"
  by (simp_all add: fun_eq_iff r_add_def r_sub_def r_mul_def r_div_def id_def option.map_ident)

lemma r_sum_exact: "r_sum id xs = sql_sum xs"
  by (cases "non_null xs") (simp_all add: r_sum_def sql_sum_def foldl_add id_def)

lemma summary_select_exact: "summary_select_rounded id j = summary_select j"
  by (simp add: summary_select_rounded_def summary_select_def r_ops_exact)

lemma rollup_select_exact: "rollup_select_rounded id kg = rollup_select kg"
  by (cases kg) (simp add: rollup_select_rounded_def rollup_select_def r_ops_exact r_sum_exact)



lemma rollup_rounded_exact: "vendor_summary_by_vendor_rounded id vss = vendor_summary_by_vendor_query vss"
  by (simp add: vendor_summary_by_vendor_rounded_def vendor_summary_by_vendor_query_def rollup_select_exact)

lemma rollup_margin_of_columns:
  "v_ProfitMargin (rollup_select_rounded rnd kg) = margin_of_columns rnd (rollup_select_rounded rnd kg)"
  by (cases kg) (simp add: rollup_select_rounded_def margin_of_columns_def)

lemma drift_group: "group_by VendorNumber drift_summary = [(Some 1, drift_summary)]"
  unfolding drift_summary_rows by code_simp

lemma drift_sales_sum:
  "r_sum b64 (map TotalSalesDollars drift_summary) = Some (3602879701896397 / 18014398509481984)"
  unfolding drift_summary_rows by code_simp

lemma drift_purchase_sum:
  "r_sum b64 (map TotalPurchaseDollars drift_summary) = Some (1351079888211149 / 4503599627370496)"
  unfolding drift_summary_rows by code_simp

lemma drift_freight_sum:
  "r_sum b64 (map FreightCost drift_summary) = Some 0"
  unfolding drift_summary_rows by code_simp

lemma drift_profit_sum:
  "r_sum b64 (map GrossProfit drift_summary) = Some (- (3602879701896397 / 36028797018963968))"
  unfolding drift_summary_rows by code_simp

lemma drift_margin_code:
  "r_div b64
     (r_mul b64 (Some 100)
        (r_sub b64 (r_sub b64 (Some (3602879701896397 / 18014398509481984))
                              (Some (1351079888211149 / 4503599627370496)))
                   (Some 0)))
     (Some (3602879701896397 / 18014398509481984)) = Some (- (3518437208883201 / 70368744177664))"
  by code_simp

lemma drift_margin_claim:
  "r_div b64 (r_mul b64 (Some 100) (Some (- (3602879701896397 / 36028797018963968))))
     (Some (3602879701896397 / 18014398509481984)) = Some (- 50)"
  by code_simp

lemma drift_exact_margin: "rolled_up_margin drift_summary (Some 1) = - 50"
  unfolding drift_summary_rows by code_simp

text \<open>
  C6, as the specification states it, fails in the program's arithmetic. The script
  computes \<open>ProfitMargin\<close> from \<open>SUM(S) - SUM(P) - SUM(F)\<close>, not from the sum of
  \<open>GrossProfit\<close>, and in binary64 the two differ: for brands sold for 0.1 and 0.1 and
  bought for 0.1 and 0.2 the stored \<open>ProfitMargin\<close> is \<open>-(50 + 2^-46)\<close>, while 100 times the
  sum of \<open>GrossProfit\<close> over the sum of \<open>TotalSalesDollars\<close> is \<open>-50\<close>, computed in
  binary64 or exactly.
\<close>

theorem rollup_margin_rounding:
  "map GrossProfit drift_summary = [Some 0, Some (- (3602879701896397 / 36028797018963968))] \<and>
   map v_ProfitMargin drift_rollup = [Some (- (3518437208883201 / 70368744177664))] \<and>
   margin_of_gross_profit b64 drift_summary = Some (- 50) \<and>
   rolled_up_margin drift_summary (Some 1) = - 50"
proof (intro conjI)
  show "map GrossProfit drift_summary = [Some 0, Some (- (3602879701896397 / 36028797018963968))]"
    by (simp add: drift_summary_rows)
  show "map v_ProfitMargin drift_rollup = [Some (- (3518437208883201 / 70368744177664))]"
    by (simp add: drift_rollup_def vendor_summary_by_vendor_rounded_def drift_group
        rollup_margin_of_columns margin_of_columns_def rollup_select_rounded_def
        drift_sales_sum drift_purchase_sum drift_freight_sum drift_margin_code is_true_def)
  show "margin_of_gross_profit b64 drift_summary = Some (- 50)"
    by (simp add: margin_of_gross_profit_def drift_sales_sum drift_profit_sum drift_margin_claim is_true_def)
  show "rolled_up_margin drift_summary (Some 1) = - 50"
    by (rule drift_exact_margin)
qed

text \<open>
  C6, amended. In every row of \<open>vendor_summary_by_vendor\<close>, \<open>ProfitMargin\<close> is recomputed
  from the rolled-up sums of that row: it is
  \<open>100 * (TotalSalesDol - TotalPurchaseDol - FreightCost) / TotalSalesDol\<close> when the summed
  sales dollars are positive and 0 otherwise, in whatever arithmetic the sums and the
  ratio are rounded. With exact numbers, for a table built from the base tables, this is
  100 times the sum of \<open>GrossProfit\<close> over the vendor's rows divided by the sum of their
  \<open>TotalSalesDollars\<close>; so the program's value equals that ratio to within rounding. It is
  not the average of the rows' margins: in the example it is 80/3 and the average is
  57/2.
\<close>

theorem rollup_margin:
  "(\<forall>v \<in> set (vendor_summary_by_vendor_query (vendor_sales_summary_query ss ps vis)).
      v_ProfitMargin v = Some (margin_from_sums (vendor_sales_summary_query ss ps vis) (v_VendorNumber v)) \<and>
      margin_from_sums (vendor_sales_summary_query ss ps vis) (v_VendorNumber v) =
        rolled_up_margin (vendor_sales_summary_query ss ps vis) (v_VendorNumber v)) \<and>
   (\<forall>v \<in> set (vendor_summary_by_vendor_rounded rnd vss). v_ProfitMargin v = margin_of_columns rnd v) \<and>
   map v_ProfitMargin
     (vendor_summary_by_vendor_query (vendor_sales_summary_query ex_sales ex_purchases ex_vendor_invoice)) =
     [Some (80 / 3)] \<and>
   average_brand_margin (vendor_sales_summary_query ex_sales ex_purchases ex_vendor_invoice) (Some 1) = 57 / 2"
proof (intro conjI ballI)
  fix v assume "v \<in> set (vendor_summary_by_vendor_query (vendor_sales_summary_query ss ps vis))"
  then obtain kg where kg: "kg \<in> set (group_by VendorNumber (vendor_sales_summary_query ss ps vis))"
    and v: "v = rollup_select kg"
    by (auto simp: vendor_summary_by_vendor_query_def)
  let ?g = "snd kg"
  from group_by_member[OF kg]
  have g: "?g = vendor_rows (vendor_sales_summary_query ss ps vis) (fst kg)" and ne: "?g \<noteq> []"
    unfolding vendor_rows_def by blast+
  have sub: "r \<in> set (vendor_sales_summary_query ss ps vis)" if "r \<in> set ?g" for r
    using that by (simp add: g vendor_rows_def)
  let ?S = "sum_list (map (\<lambda>r. value_or_zero (TotalSalesDollars r)) ?g)"
  let ?P = "sum_list (map (\<lambda>r. value_or_zero (TotalPurchaseDollars r)) ?g)"
  let ?F = "sum_list (map (\<lambda>r. value_or_zero (FreightCost r)) ?g)"
  have S: "sql_sum (map TotalSalesDollars ?g) = Some ?S"
    using summary_row_shape[OF sub] by (intro sql_sum_Some ne) auto
  have P: "sql_sum (map TotalPurchaseDollars ?g) = Some ?P"
    using summary_row_shape[OF sub] by (intro sql_sum_Some ne) auto
  have F: "sql_sum (map FreightCost ?g) = Some ?F"
    using summary_row_shape[OF sub] by (intro sql_sum_Some ne) auto
  have G: "sum_list (map (\<lambda>r. value_or_zero (GrossProfit r)) ?g) = ?S - ?P - ?F"
  proof (rule sum_list_gross_profit)
    fix r assume "r \<in> set ?g"
    from summary_row_shape[OF sub[OF this]]
    show "value_or_zero (GrossProfit r) =
      value_or_zero (TotalSalesDollars r) - value_or_zero (TotalPurchaseDollars r) - value_or_zero (FreightCost r)"
      by (auto simp: value_or_zero_def)
  qed
  have m: "v_ProfitMargin v = Some (if 0 < ?S then 100 * (?S - ?P - ?F) / ?S else 0)"
    by (simp add: v rollup_select_def case_prod_unfold S P F is_true_def)
  have n: "v_VendorNumber v = fst kg"
    by (simp add: v rollup_select_def case_prod_unfold)
  from m n show "v_ProfitMargin v =
      Some (margin_from_sums (vendor_sales_summary_query ss ps vis) (v_VendorNumber v))"
    by (simp add: margin_from_sums_def Let_def g[symmetric])
  from n show "margin_from_sums (vendor_sales_summary_query ss ps vis) (v_VendorNumber v) =
        rolled_up_margin (vendor_sales_summary_query ss ps vis) (v_VendorNumber v)"
    by (simp add: margin_from_sums_def rolled_up_margin_def Let_def g[symmetric] G)
next
  fix v assume "v \<in> set (vendor_summary_by_vendor_rounded rnd vss)"
  then show "v_ProfitMargin v = margin_of_columns rnd v"
    by (auto simp: vendor_summary_by_vendor_rounded_def rollup_margin_of_columns)
next
  show "map v_ProfitMargin
     (vendor_summary_by_vendor_query (vendor_sales_summary_query ex_sales ex_purchases ex_vendor_invoice)) =
     [Some (80 / 3)]"
    by code_simp
  show "average_brand_margin (vendor_sales_summary_query ex_sales ex_purchases ex_vendor_invoice) (Some 1) = 57 / 2"
    by code_simp
qed

theorem rollup_margin_witness:
  "hd (vendor_summary_by_vendor_query (vendor_sales_summary_query ex_sales ex_purchases ex_vendor_invoice))
     \<in> set (vendor_summary_by_vendor_query (vendor_sales_summary_query ex_sales ex_purchases ex_vendor_invoice)) \<and>
   v_ProfitMargin (hd (vendor_summary_by_vendor_query (vendor_sales_summary_query ex_sales ex_purchases ex_vendor_invoice))) =
     Some (margin_from_sums (vendor_sales_summary_query ex_sales ex_purchases ex_vendor_invoice) (Some 1)) \<and>
   margin_from_sums (vendor_sales_summary_query ex_sales ex_purchases ex_vendor_invoice) (Some 1) =
     100 * (1500 - 1000 - 100) / 1500 \<and>
   rolled_up_margin (vendor_sales_summary_query ex_sales ex_purchases ex_vendor_invoice) (Some 1) = 100 * 400 / 1500 \<and>
   hd drift_rollup \<in> set (vendor_summary_by_vendor_rounded b64 drift_summary) \<and>
   v_ProfitMargin (hd drift_rollup) = margin_of_columns b64 (hd drift_rollup)"
proof -
  let ?X = "vendor_sales_summary_query ex_sales ex_purchases ex_vendor_invoice"
  have mem: "hd (vendor_summary_by_vendor_query ?X) \<in> set (vendor_summary_by_vendor_query ?X)"
    by code_simp
  have num: "v_VendorNumber (hd (vendor_summary_by_vendor_query ?X)) = Some 1"
    by code_simp
  have val: "margin_from_sums ?X (Some 1) = 100 * (1500 - 1000 - 100) / 1500"
    by code_simp
  have val': "rolled_up_margin ?X (Some 1) = 100 * 400 / 1500"
    by code_simp
  have dmem: "hd drift_rollup \<in> set (vendor_summary_by_vendor_rounded b64 drift_summary)"
    by (simp add: drift_rollup_def vendor_summary_by_vendor_rounded_def drift_group)
  note inst = rollup_margin [of ex_sales ex_purchases ex_vendor_invoice b64 drift_summary]
  from inst mem
  have "v_ProfitMargin (hd (vendor_summary_by_vendor_query ?X)) =
        Some (margin_from_sums ?X (v_VendorNumber (hd (vendor_summary_by_vendor_query ?X))))"
    by blast
  then have a: "v_ProfitMargin (hd (vendor_summary_by_vendor_query ?X)) = Some (margin_from_sums ?X (Some 1))"
    by (simp only: num)
  from inst dmem have b: "v_ProfitMargin (hd drift_rollup) = margin_of_columns b64 (hd drift_rollup)"
    by blast
  from mem a val val' dmem b show ?thesis by blast
qed

section \<open>Claims about brand_pricing_opportunities\<close>







section \<open>Zero denominators\<close>

lemma rollup_shape:
  assumes "v \<in> set (vendor_summary_by_vendor_query vss)"
  shows "v_ProfitMargin v =
           (if is_true (sql_gt (v_TotalSalesDol_in_summary v) (Some 0))
            then sql_div (sql_mul (Some 100) (sql_sub (sql_sub (v_TotalSalesDol_in_summary v) (v_TotalPurchaseDol v)) (v_FreightCost v)))
                   (v_TotalSalesDol_in_summary v)
            else Some 0)"
  using assms by (auto simp: vendor_summary_by_vendor_query_def rollup_select_def case_prod_unfold)

text \<open>
  C7. No ratio of the pipeline fails or leaves the numbers when its denominator is zero;
  it is 0 or \<open>NULL\<close>. \<open>FreightCost\<close> is 0 when the vendor's total purchase dollars are 0 or
  \<open>NULL\<close>; \<open>ProfitMargin\<close> is 0 when the sales dollars are 0, in \<open>vendor_sales_summary\<close> and in
  \<open>vendor_summary_by_vendor\<close>; \<open>AvgSalesPrice\<close>, \<open>AvgPurchasePrice\<close> and
  \<open>NeededPriceDeltaPerUnit\<close> are \<open>NULL\<close> when the sales quantity is 0; \<open>RequiredSalesDollars\<close>
  is 0 or \<open>NULL\<close> when the target margin is 1. A brand row with zero sales dollars has
  \<open>AvgSalesPrice\<close> \<open>NULL\<close> and \<open>ProfitMargin\<close> 0.
\<close>

theorem zero_denominators:
  "(\<forall>r \<in> set (vendor_sales_summary_query ss ps vis).
      (vendor_purchase_dollars ps (VendorNumber r) = None \<or>
       vendor_purchase_dollars ps (VendorNumber r) = Some 0 \<longrightarrow> FreightCost r = Some 0) \<and>
      (TotalSalesDollars r = Some 0 \<longrightarrow> ProfitMargin r = Some 0)) \<and>
   (\<forall>v \<in> set (vendor_summary_by_vendor_query vss).
      v_TotalSalesDol_in_summary v = None \<or> v_TotalSalesDol_in_summary v = Some 0 \<longrightarrow>
      v_ProfitMargin v = Some 0) \<and>
   (\<forall>b. (b_TotalSalesQuantity b = Some 0 \<longrightarrow>
           AvgSalesPrice b = None \<and> AvgPurchasePrice b = None \<and>
           NeededPriceDeltaPerUnit target b = None) \<and>
        (b_TotalSalesDollars b = Some 0 \<longrightarrow> AvgSalesPrice b = None) \<and>
        (RequiredSalesDollars 1 b = Some 0 \<or> RequiredSalesDollars 1 b = None))"
proof (intro conjI ballI allI impI)
  fix r assume r: "r \<in> set (vendor_sales_summary_query ss ps vis)"
  then obtain s where s: "r = summary_row ps vis s"
    by (auto simp: vendor_sales_summary_rows)
  { assume "vendor_purchase_dollars ps (VendorNumber r) = None \<or>
       vendor_purchase_dollars ps (VendorNumber r) = Some 0"
    then show "FreightCost r = Some 0"
      by (auto simp: s summary_row_def Let_def freight_share_def split: option.splits) }
  { assume "TotalSalesDollars r = Some 0"
    then show "ProfitMargin r = Some 0"
      by (simp add: s summary_row_def Let_def) }
next
  fix v assume "v \<in> set (vendor_summary_by_vendor_query vss)"
    and "v_TotalSalesDol_in_summary v = None \<or> v_TotalSalesDol_in_summary v = Some 0"
  then show "v_ProfitMargin v = Some 0"
    by (auto simp: rollup_shape is_true_def)
next
  fix b :: brand_pricing_row
  { assume "b_TotalSalesQuantity b = Some 0"
    then show "AvgSalesPrice b = None" "AvgPurchasePrice b = None" "NeededPriceDeltaPerUnit target b = None"
      by (cases "b_TotalSalesDollars b"; cases "b_TotalPurchaseDollars b";
          simp add: AvgSalesPrice_def AvgPurchasePrice_def NeededPriceDeltaPerUnit_def is_true_def)+ }
  { assume "b_TotalSalesDollars b = Some 0"
    then show "AvgSalesPrice b = None"
      by (simp add: AvgSalesPrice_def is_true_def) }
  show "RequiredSalesDollars 1 b = Some 0 \<or> RequiredSalesDollars 1 b = None"
    by (cases "b_TotalPurchaseDollars b"; cases "b_FreightCost b")
       (simp_all add: RequiredSalesDollars_def is_true_def)
qed


theorem zero_denominators_witness:
  "hd (vendor_sales_summary_query idle_sales idle_purchases ex_vendor_invoice)
     \<in> set (vendor_sales_summary_query idle_sales idle_purchases ex_vendor_invoice) \<and>
   vendor_purchase_dollars idle_purchases
     (VendorNumber (hd (vendor_sales_summary_query idle_sales idle_purchases ex_vendor_invoice))) = Some 0 \<and>
   FreightCost (hd (vendor_sales_summary_query idle_sales idle_purchases ex_vendor_invoice)) = Some 0 \<and>
   TotalSalesDollars (hd (vendor_sales_summary_query idle_sales idle_purchases ex_vendor_invoice)) = Some 0 \<and>
   ProfitMargin (hd (vendor_sales_summary_query idle_sales idle_purchases ex_vendor_invoice)) = Some 0 \<and>
   v_TotalSalesDol_in_summary (hd (vendor_summary_by_vendor_query
      (vendor_sales_summary_query idle_sales idle_purchases ex_vendor_invoice))) = Some 0 \<and>
   v_ProfitMargin (hd (vendor_summary_by_vendor_query
      (vendor_sales_summary_query idle_sales idle_purchases ex_vendor_invoice))) = Some 0 \<and>
   b_TotalSalesQuantity (hd (brand_pricing_query
      (vendor_sales_summary_query idle_sales idle_purchases ex_vendor_invoice))) = Some 0 \<and>
   AvgSalesPrice (hd (brand_pricing_query
      (vendor_sales_summary_query idle_sales idle_purchases ex_vendor_invoice))) = None \<and>
   AvgPurchasePrice (hd (brand_pricing_query
      (vendor_sales_summary_query idle_sales idle_purchases ex_vendor_invoice))) = None \<and>
   NeededPriceDeltaPerUnit (2 / 5) (hd (brand_pricing_query
      (vendor_sales_summary_query idle_sales idle_purchases ex_vendor_invoice))) = None"
proof -
  let ?X = "vendor_sales_summary_query idle_sales idle_purchases ex_vendor_invoice"
  have mem: "hd ?X \<in> set ?X"
    by code_simp
  have vmem: "hd (vendor_summary_by_vendor_query ?X) \<in> set (vendor_summary_by_vendor_query ?X)"
    by code_simp
  have t: "vendor_purchase_dollars idle_purchases (VendorNumber (hd ?X)) = Some 0"
    by code_simp
  have s: "TotalSalesDollars (hd ?X) = Some 0"
    by code_simp
  have vs: "v_TotalSalesDol_in_summary (hd (vendor_summary_by_vendor_query ?X)) = Some 0"
    by code_simp
  have q: "b_TotalSalesQuantity (hd (brand_pricing_query ?X)) = Some 0"
    by code_simp
  from zero_denominators [of idle_sales idle_purchases ex_vendor_invoice ?X "2 / 5"] mem vmem t s vs q
  show ?thesis by blast
qed

section \<open>Claims about the pipeline\<close>

lemma have_base:
  "''purchases'' \<in> have_tables d \<longleftrightarrow> purchases d \<noteq> None"
  "''vendor_invoice'' \<in> have_tables d \<longleftrightarrow> vendor_invoice d \<noteq> None"
  "''sales'' \<in> have_tables d \<longleftrightarrow> sales d \<noteq> None"
  by (simp_all add: have_tables_def)

lemma and_then_error: "and_then (d, Some e) f = (d, Some e)"
  by (simp add: and_then_def)


lemma require_tables_missing:
  "filter (\<lambda>n. n \<notin> have_tables d) names \<noteq> [] \<Longrightarrow>
   require_tables d names = (d, Some (RuntimeError (filter (\<lambda>n. n \<notin> have_tables d) names)))"
  by (simp add: require_tables_def Let_def)

lemma require_tables_present:
  "filter (\<lambda>n. n \<notin> have_tables d) names = [] \<Longrightarrow> require_tables d names = (d, None)"
  by (simp add: require_tables_def Let_def)

lemma main_missing:
  assumes "filter (\<lambda>n. n \<notin> have_tables d) [''purchases'', ''vendor_invoice'', ''sales''] \<noteq> []"
  shows "main d target =
         (d, Some (RuntimeError (filter (\<lambda>n. n \<notin> have_tables d) [''purchases'', ''vendor_invoice'', ''sales''])))"
  unfolding main_def by (simp only: require_tables_missing[OF assms] and_then_error)

lemma missing_members:
  "n \<in> set (filter (\<lambda>n. n \<notin> have_tables d) [''purchases'', ''vendor_invoice'', ''sales'']) \<longleftrightarrow>
     (n = ''purchases'' \<and> purchases d = None) \<or>
     (n = ''vendor_invoice'' \<and> vendor_invoice d = None) \<or>
     (n = ''sales'' \<and> sales d = None)"
proof -
  have "n \<in> set (filter (\<lambda>n. n \<notin> have_tables d) [''purchases'', ''vendor_invoice'', ''sales'']) \<longleftrightarrow>
        (n = ''purchases'' \<or> n = ''vendor_invoice'' \<or> n = ''sales'') \<and> n \<notin> have_tables d"
    by (simp only: set_filter mem_Collect_eq list.set insert_iff empty_iff simp_thms)
  then show ?thesis using have_base[of d] by blast
qed





text \<open>
  C8. When one of \<open>purchases\<close>, \<open>vendor_invoice\<close>, \<open>sales\<close> is absent, \<open>main\<close> raises one
  \<open>RuntimeError\<close> whose list holds exactly the absent ones of the three, and the database
  is as it was: no index was created and no derived table was dropped or built. When the
  three are present, \<open>require_tables\<close> raises nothing.
\<close>

theorem missing_tables_reported:
  "(purchases d = None \<or> vendor_invoice d = None \<or> sales d = None \<longrightarrow>
      (\<exists>missing.
         main d target = (d, Some (RuntimeError missing)) \<and>
         (\<forall>n. n \<in> set missing \<longleftrightarrow>
                (n = ''purchases'' \<and> purchases d = None) \<or>
                (n = ''vendor_invoice'' \<and> vendor_invoice d = None) \<or>
                (n = ''sales'' \<and> sales d = None)))) \<and>
   (purchases d \<noteq> None \<and> vendor_invoice d \<noteq> None \<and> sales d \<noteq> None \<longrightarrow>
      require_tables d [''purchases'', ''vendor_invoice'', ''sales''] = (d, None))"
proof (intro conjI impI)
  let ?missing = "filter (\<lambda>n. n \<notin> have_tables d) [''purchases'', ''vendor_invoice'', ''sales'']"
  assume "purchases d = None \<or> vendor_invoice d = None \<or> sales d = None"
  then have "\<exists>n. n \<in> set ?missing"
    unfolding missing_members by blast
  then have "?missing \<noteq> []" by (metis empty_iff empty_set)
  then have "main d target = (d, Some (RuntimeError ?missing))"
    by (rule main_missing)
  then show "\<exists>missing.
         main d target = (d, Some (RuntimeError missing)) \<and>
         (\<forall>n. n \<in> set missing \<longleftrightarrow>
                (n = ''purchases'' \<and> purchases d = None) \<or>
                (n = ''vendor_invoice'' \<and> vendor_invoice d = None) \<or>
                (n = ''sales'' \<and> sales d = None))"
    using missing_members[of _ d] by blast
next
  let ?missing = "filter (\<lambda>n. n \<notin> have_tables d) [''purchases'', ''vendor_invoice'', ''sales'']"
  assume "purchases d \<noteq> None \<and> vendor_invoice d \<noteq> None \<and> sales d \<noteq> None"
  then have "\<not> (\<exists>n. n \<in> set ?missing)"
    unfolding missing_members by blast
  then have "?missing = []" by (metis list.set_intros(1) neq_Nil_conv)
  then show "require_tables d [''purchases'', ''vendor_invoice'', ''sales''] = (d, None)"
    by (rule require_tables_present)
qed


theorem missing_tables_reported_witness:
  "purchases empty_db = None \<and>
   fst (main empty_db (2 / 5)) = empty_db \<and>
   snd (main empty_db (2 / 5)) \<noteq> None \<and>
   purchases ex_db \<noteq> None \<and> vendor_invoice ex_db \<noteq> None \<and> sales ex_db \<noteq> None \<and>
   require_tables ex_db [''purchases'', ''vendor_invoice'', ''sales''] = (ex_db, None)"
proof -
  have a: "purchases empty_db = None"
    by (simp add: empty_db_def)
  have b: "purchases ex_db \<noteq> None \<and> vendor_invoice ex_db \<noteq> None \<and> sales ex_db \<noteq> None"
    by (simp add: ex_db_def empty_db_def)
  from missing_tables_reported [of empty_db "2 / 5"] a
  obtain missing where "main empty_db (2 / 5) = (empty_db, Some (RuntimeError missing))"
    by blast
  then have c: "fst (main empty_db (2 / 5)) = empty_db \<and> snd (main empty_db (2 / 5)) \<noteq> None"
    by simp
  from missing_tables_reported [of ex_db "2 / 5"] b
  have "require_tables ex_db [''purchases'', ''vendor_invoice'', ''sales''] = (ex_db, None)"
    by blast
  with a b c show ?thesis by blast
qed



end
